theory Spec2Isabelle
  imports Complex_Main "HOL-Library.AList"
begin

section \<open>The store: the ORM tables of backend/app.py\<close>

text \<open>
  The scoring function \<open>calc_scores\<close> of backend/app.py reads four tables through
  SQLAlchemy and returns the monthly score records and the cumulative totals. The model
  passes the content of the tables as a value of type \<open>Store\<close>; each table is the list of
  its rows in the order the database returns them (no query of \<open>calc_scores\<close> has an
  \<open>ORDER BY\<close>). The classes are records with the columns as fields; \<open>id\<close> is written
  \<open>id'\<close>. Every column is declared \<open>Mapped[float]\<close>, \<open>Mapped[str]\<close>, ... without
  \<open>Optional\<close>, hence \<open>NOT NULL\<close>: the \<open>or 0.0\<close> of the code never replaces a value.

  Python floats are modelled as real numbers, the factor \<open>1.3\<close> as \<open>13 / 10\<close>; rounding,
  infinities and NaN are outside the model. A \<open>date\<close> is modelled by its ordinal
  (\<open>date.toordinal()\<close>), an integer ordered as the dates are; a date is always truthy, so
  \<open>if prev_m\<close> is the test \<open>prev_m is not None\<close>. A string is the list of its characters,
  each a code point below 256; strings with other characters are outside the model.
\<close>

type_synonym date = int

record KAM =
  id' :: int
  name :: string
  region :: string

record MonthlyTarget =
  id' :: int
  kam_id :: int
  month :: date
  target_pp :: real
  target_lvp :: real

record Project =
  id' :: int
  kam_id :: int
  code :: string
  name :: string

record ProjectMonth =
  id' :: int
  project_id :: int
  month :: date
  pp :: real
  lvp :: real
  sop_ym :: string
  foc2026_pp :: real
  foc2026_sec :: real

record Store =
  kams :: "KAM list"
  monthly_targets :: "MonthlyTarget list"
  projects :: "Project list"
  project_months :: "ProjectMonth list"

record ScoreItem =
  kam :: string
  month :: date
  points_gained_pp :: real
  points_gained_lvp :: real
  points_lost_sop_delay :: real
  points_lost_volume_dec :: real
  points_lost_pp_dec :: real
  total :: real

text \<open>
  The exceptions the scoring code can raise: \<open>ValueError\<close> from \<open>ym_to_int\<close> (too many
  or too few parts to unpack, or a part \<open>int\<close> rejects), \<open>KeyError\<close> from
  \<open>cumul[kam.name] += total\<close>, and \<open>OverflowError\<close> from \<open>2.0 * prev["foc"] * diff\<close>,
  where the integer \<open>diff\<close> is converted to a float. The values of the dictionary \<open>prev_proj_map\<close> are
  dictionaries with the keys "pp", "lvp", "sop" and "foc".
\<close>

datatype error = ValueError | KeyError | OverflowError

record prev_row =
  pp :: real
  lvp :: real
  sop :: string
  foc :: real

section \<open>Python builtins used by the scoring code\<close>

text \<open>
  \<open>split_on sep s\<close> is \<open>s.split(sep)\<close> for a separator of one character. \<open>py_int s\<close> is
  \<open>int(s)\<close> on a string: surrounding blanks are stripped, one sign is allowed, then
  decimal digits follow, with single underscores allowed between digits; anything else
  raises \<open>ValueError\<close>, and so does a literal of more than 4300 digits, the default of
  \<open>sys.get_int_max_str_digits()\<close>. The blanks \<open>int\<close> strips are tab, line feed, vertical
  tab, form feed, carriage return and space, and of the code points from 128 to 255 the
  two that are spaces, 133 and 160; the separators 28 to 31 are not stripped. The only
  decimal digits below 256 are 0 to 9. \<open>ym_to_int\<close> is the local function of the slippage
  loop: \<open>y, mm = ym.split("-"); return int(y)*12 + int(mm)\<close>.

  \<open>int_to_float_overflows d\<close> says that converting the integer \<open>d\<close> to a float raises
  \<open>OverflowError\<close>: \<open>d\<close> rounds (to nearest, ties to even) to a magnitude of at least
  \<open>2 ^ 1024\<close>, which is the case from \<open>2 ^ 1024 - 2 ^ 970\<close> on.
\<close>

fun split_on :: "char \<Rightarrow> string \<Rightarrow> string list" where
  "split_on sep [] = [[]]"
| "split_on sep (c # cs) =
     (if c = sep then [] # split_on sep cs
      else (case split_on sep cs of
              [] \<Rightarrow> [[c]]
            | w # ws \<Rightarrow> (c # w) # ws))"

definition is_space :: "char \<Rightarrow> bool" where
  "is_space c = (of_char c \<in> {9, 10, 11, 12, 13, 32, 133, 160 :: nat})"

definition is_digit :: "char \<Rightarrow> bool" where
  "is_digit c = (48 \<le> (of_char c :: nat) \<and> (of_char c :: nat) \<le> 57)"

definition digit_val :: "char \<Rightarrow> int" where
  "digit_val c = of_char c - 48"

definition strip :: "string \<Rightarrow> string" where
  "strip s = rev (dropWhile is_space (rev (dropWhile is_space s)))"

fun parse_digits :: "string \<Rightarrow> int \<Rightarrow> int option" where
  "parse_digits [] acc = Some acc"
| "parse_digits (c # cs) acc =
     (if is_digit c then parse_digits cs (acc * 10 + digit_val c)
      else if c = CHR ''_'' then
        (case cs of
           [] \<Rightarrow> None
         | d # ds \<Rightarrow> if is_digit d then parse_digits ds (acc * 10 + digit_val d) else None)
      else None)"

definition int_max_str_digits :: int where
  "int_max_str_digits = 4300"

definition count_digits :: "string \<Rightarrow> int" where
  "count_digits s = sum_list (map (\<lambda>c. if is_digit c then 1 else 0) s)"

definition int_to_float_overflows :: "int \<Rightarrow> bool" where
  "int_to_float_overflows d = (\<bar>d\<bar> \<ge> 2 ^ 1024 - 2 ^ 970)"

definition py_int :: "string \<Rightarrow> error + int" where
  "py_int s =
     (case strip s of
        [] \<Rightarrow> Inl ValueError
      | c # cs \<Rightarrow>
          (let sgn = (if c = CHR ''-'' then - 1 else 1);
               body = (if c = CHR ''-'' \<or> c = CHR ''+'' then cs else c # cs)
           in case body of
                [] \<Rightarrow> Inl ValueError
              | d # ds \<Rightarrow>
                  if is_digit d then
                    (case parse_digits ds (digit_val d) of
                       None \<Rightarrow> Inl ValueError
                     | Some v \<Rightarrow>
                         if count_digits body > int_max_str_digits then Inl ValueError
                         else Inr (sgn * v))
                  else Inl ValueError))"

definition ym_to_int :: "string \<Rightarrow> error + int" where
  "ym_to_int ym =
     (case split_on (CHR ''-'') ym of
        [y, mm] \<Rightarrow>
          (case py_int y of
             Inl e \<Rightarrow> Inl e
           | Inr a \<Rightarrow> (case py_int mm of Inl e \<Rightarrow> Inl e | Inr b \<Rightarrow> Inr (a * 12 + b)))
      | _ \<Rightarrow> Inl ValueError)"

section \<open>Queries of \<open>calc_scores\<close>\<close>

text \<open>
  \<open>kam_month_snaps\<close>: \<open>select(ProjectMonth).join(Project).where(Project.kam_id == kam_id,
  ProjectMonth.month == m)\<close>, with the early return for \<open>m is None\<close>; the join is on the
  foreign key \<open>project_id\<close>. \<open>month_targets\<close>: \<open>s.scalar\<close> of the matching targets,
  the first row or \<open>None\<close>. \<open>months\<close>: the sorted distinct months of all snapshots.
  \<open>month_rows\<close>: the rows of \<open>select(...).where(ProjectMonth.month == m)\<close>, the query
  behind \<open>stmt_prev\<close>, \<open>stmt_curr\<close> and \<open>stmt_curr2\<close>, which has no condition on the
  KAM. \<open>prev_proj_map\<close>: the dictionary built at the head of the month loop, a later row
  of the same project overwriting an earlier one.
\<close>

definition kam_month_snaps :: "Store \<Rightarrow> int \<Rightarrow> date option \<Rightarrow> ProjectMonth list" where
  "kam_month_snaps st kid m =
     (case m of
        None \<Rightarrow> []
      | Some m' \<Rightarrow>
          [x. x \<leftarrow> project_months st, p \<leftarrow> projects st,
              Project.id' p = project_id x \<and> Project.kam_id p = kid \<and> ProjectMonth.month x = m'])"

definition month_targets :: "Store \<Rightarrow> int \<Rightarrow> date \<Rightarrow> MonthlyTarget option" where
  "month_targets st kid m =
     find (\<lambda>t. MonthlyTarget.kam_id t = kid \<and> MonthlyTarget.month t = m) (monthly_targets st)"

definition months :: "Store \<Rightarrow> date list" where
  "months st = sort (remdups (map ProjectMonth.month (project_months st)))"

definition month_rows :: "Store \<Rightarrow> date \<Rightarrow> ProjectMonth list" where
  "month_rows st m = filter (\<lambda>x. ProjectMonth.month x = m) (project_months st)"

definition prev_proj_map :: "Store \<Rightarrow> date option \<Rightarrow> (int \<rightharpoonup> prev_row)" where
  "prev_proj_map st prev_m =
     (case prev_m of
        None \<Rightarrow> Map.empty
      | Some pm \<Rightarrow>
          fold (\<lambda>x mp. mp(project_id x \<mapsto>
                  \<lparr>pp = ProjectMonth.pp x, lvp = ProjectMonth.lvp x,
                   sop = sop_ym x, foc = foc2026_sec x\<rparr>))
               (month_rows st pm) Map.empty)"

section \<open>The components of one score\<close>

text \<open>
  One function for each block of the body of \<open>for kam in kams\<close>, with the names of the
  variables the block assigns. The four loss blocks are guarded by \<open>if prev_m\<close>. The loops
  of the slippage loss and of the promotions run over \<open>month_rows st m\<close>, the snapshots of
  all KAMs in the month, and skip a row whose project has no entry in \<open>prev_proj_map\<close>;
  the volume-decrease and the inactivity blocks read the KAM's own \<open>prev_snaps\<close> and
  \<open>snaps\<close>.
\<close>

definition gained_pp_points :: "MonthlyTarget option \<Rightarrow> real \<Rightarrow> real" where
  "gained_pp_points t added_pp =
     (case t of
        None \<Rightarrow> 0
      | Some t' \<Rightarrow>
          if added_pp \<ge> target_pp t' * (13 / 10) then 20
          else if added_pp \<ge> target_pp t' then 10
          else 0)"

definition gained_lvp_points :: "MonthlyTarget option \<Rightarrow> real \<Rightarrow> real" where
  "gained_lvp_points t added_lvp =
     (case t of
        None \<Rightarrow> 0
      | Some t' \<Rightarrow>
          if added_lvp \<ge> target_lvp t' * (13 / 10) then 40
          else if added_lvp \<ge> target_lvp t' then 20
          else 0)"

fun sop_delay_rows :: "(int \<rightharpoonup> prev_row) \<Rightarrow> ProjectMonth list \<Rightarrow> real \<Rightarrow> error + real" where
  "sop_delay_rows pmap [] loss = Inr loss"
| "sop_delay_rows pmap (c # cs) loss =
     (case pmap (project_id c) of
        None \<Rightarrow> sop_delay_rows pmap cs loss
      | Some prev \<Rightarrow>
          (case ym_to_int (sop_ym c) of
             Inl e \<Rightarrow> Inl e
           | Inr a \<Rightarrow>
               (case ym_to_int (sop prev) of
                  Inl e \<Rightarrow> Inl e
                | Inr b \<Rightarrow>
                    (let diff = a - b
                     in if diff > 0 \<and> foc prev > 0
                        then (if int_to_float_overflows diff then Inl OverflowError
                              else sop_delay_rows pmap cs (loss + 2 * foc prev * of_int diff))
                        else sop_delay_rows pmap cs loss))))"

definition sop_delay_loss ::
  "Store \<Rightarrow> (int \<rightharpoonup> prev_row) \<Rightarrow> date option \<Rightarrow> date \<Rightarrow> error + real" where
  "sop_delay_loss st pmap prev_m m =
     (case prev_m of
        None \<Rightarrow> Inr 0
      | Some _ \<Rightarrow> sop_delay_rows pmap (month_rows st m) 0)"

definition vol_dec_loss :: "date option \<Rightarrow> ProjectMonth list \<Rightarrow> ProjectMonth list \<Rightarrow> real" where
  "vol_dec_loss prev_m prev_snaps snaps =
     (case prev_m of
        None \<Rightarrow> 0
      | Some _ \<Rightarrow>
          (let prev_foc_total = sum_list (map foc2026_sec prev_snaps);
               curr_foc_total = sum_list (map foc2026_sec snaps)
           in if curr_foc_total < prev_foc_total
              then 2 * (prev_foc_total - curr_foc_total) else 0))"

fun promotions_rows :: "(int \<rightharpoonup> prev_row) \<Rightarrow> ProjectMonth list \<Rightarrow> real \<Rightarrow> real" where
  "promotions_rows pmap [] promotions = promotions"
| "promotions_rows pmap (c # cs) promotions =
     (case pmap (project_id c) of
        None \<Rightarrow> promotions_rows pmap cs promotions
      | Some prev \<Rightarrow>
          (let lift_inc = max 0 (ProjectMonth.lvp c - lvp prev)
           in promotions_rows pmap cs (promotions + min lift_inc (pp prev))))"

definition promotions :: "Store \<Rightarrow> (int \<rightharpoonup> prev_row) \<Rightarrow> date option \<Rightarrow> date \<Rightarrow> real" where
  "promotions st pmap prev_m m =
     (case prev_m of
        None \<Rightarrow> 0
      | Some _ \<Rightarrow> promotions_rows pmap (month_rows st m) 0)"

definition pp_dec_loss :: "date option \<Rightarrow> real \<Rightarrow> real \<Rightarrow> real \<Rightarrow> real \<Rightarrow> real" where
  "pp_dec_loss prev_m prev_pp added_pp sum_pp proms =
     (case prev_m of
        None \<Rightarrow> 0
      | Some _ \<Rightarrow>
          (let left = prev_pp + added_pp;
               right = sum_pp + proms
           in if right < left then 2 * (left - right) else 0))"

definition inactivity_loss :: "date option \<Rightarrow> ProjectMonth list \<Rightarrow> ProjectMonth list \<Rightarrow> real" where
  "inactivity_loss prev_m prev_snaps snaps =
     (case prev_m of
        None \<Rightarrow> 0
      | Some _ \<Rightarrow>
          (let prev_ids = set (map project_id prev_snaps);
               curr_ids = set (map project_id snaps)
           in if card (curr_ids - prev_ids) = 0 then 100 else 0))"

section \<open>The loops of \<open>calc_scores\<close>\<close>

text \<open>
  The body of \<open>for kam in kams\<close>: \<open>Inr None\<close> is the \<open>continue\<close> of a KAM without
  snapshots in \<open>m\<close>, \<open>Inl\<close> an exception raised in the slippage loop. The two loops thread
  the list \<open>results\<close> and the dictionary \<open>cumul\<close>, an association list in insertion order;
  \<open>month_loop\<close> runs over \<open>enumerate(months)\<close> and \<open>prev_month\<close> is
  \<open>months[mi - 1] if mi > 0 else None\<close>. \<open>init_cumul\<close> is \<open>{k.name: 0.0 for k in kams}\<close>.
\<close>

definition score_kam_month ::
  "Store \<Rightarrow> (int \<rightharpoonup> prev_row) \<Rightarrow> date option \<Rightarrow> date \<Rightarrow> KAM \<Rightarrow> error + ScoreItem option" where
  "score_kam_month st pmap prev_m m k =
     (let snaps = kam_month_snaps st (KAM.id' k) (Some m)
      in if snaps = [] then Inr None
         else
           (let sum_pp = sum_list (map ProjectMonth.pp snaps);
                sum_lvp = sum_list (map ProjectMonth.lvp snaps);
                prev_snaps = kam_month_snaps st (KAM.id' k) prev_m;
                prev_pp = sum_list (map ProjectMonth.pp prev_snaps);
                prev_lvp = sum_list (map ProjectMonth.lvp prev_snaps);
                added_pp = max 0 (sum_pp - prev_pp);
                added_lvp = max 0 (sum_lvp - prev_lvp);
                t = month_targets st (KAM.id' k) m;
                gained_pp = gained_pp_points t added_pp;
                gained_lvp = gained_lvp_points t added_lvp
            in case sop_delay_loss st pmap prev_m m of
                 Inl e \<Rightarrow> Inl e
               | Inr sop_loss \<Rightarrow>
                   (let vol_loss = vol_dec_loss prev_m prev_snaps snaps;
                        pp_loss = pp_dec_loss prev_m prev_pp added_pp sum_pp
                                    (promotions st pmap prev_m m);
                        inact = inactivity_loss prev_m prev_snaps snaps
                    in Inr (Some
                         \<lparr>kam = KAM.name k, month = m,
                          points_gained_pp = gained_pp,
                          points_gained_lvp = gained_lvp,
                          points_lost_sop_delay = sop_loss,
                          points_lost_volume_dec = vol_loss,
                          points_lost_pp_dec = pp_loss,
                          total = gained_pp + gained_lvp
                                  - (sop_loss + vol_loss + pp_loss + inact)\<rparr>))))"

type_synonym cumul = "(string \<times> real) list"

fun kam_loop ::
  "Store \<Rightarrow> (int \<rightharpoonup> prev_row) \<Rightarrow> date option \<Rightarrow> date \<Rightarrow> KAM list
     \<Rightarrow> ScoreItem list \<times> cumul \<Rightarrow> error + ScoreItem list \<times> cumul" where
  "kam_loop st pmap prev_m m [] acc = Inr acc"
| "kam_loop st pmap prev_m m (k # ks) (results, cumul) =
     (case score_kam_month st pmap prev_m m k of
        Inl e \<Rightarrow> Inl e
      | Inr None \<Rightarrow> kam_loop st pmap prev_m m ks (results, cumul)
      | Inr (Some r) \<Rightarrow>
          (case map_of cumul (KAM.name k) of
             None \<Rightarrow> Inl KeyError
           | Some v \<Rightarrow>
               kam_loop st pmap prev_m m ks
                 (results @ [r], AList.update (KAM.name k) (v + total r) cumul)))"

definition prev_month :: "date list \<Rightarrow> nat \<Rightarrow> date option" where
  "prev_month ms mi = (if mi > 0 then Some (ms ! (mi - 1)) else None)"

fun month_loop ::
  "Store \<Rightarrow> date list \<Rightarrow> (nat \<times> date) list
     \<Rightarrow> ScoreItem list \<times> cumul \<Rightarrow> error + ScoreItem list \<times> cumul" where
  "month_loop st ms [] acc = Inr acc"
| "month_loop st ms ((mi, m) # rest) acc =
     (let prev_m = prev_month ms mi
      in case kam_loop st (prev_proj_map st prev_m) prev_m m (kams st) acc of
           Inl e \<Rightarrow> Inl e
         | Inr acc' \<Rightarrow> month_loop st ms rest acc')"

definition init_cumul :: "KAM list \<Rightarrow> cumul" where
  "init_cumul ks = fold (\<lambda>k c. AList.update (KAM.name k) 0 c) ks []"

definition calc_scores :: "Store \<Rightarrow> error + ScoreItem list \<times> cumul" where
  "calc_scores st =
     (let ms = months st
      in month_loop st ms (enumerate 0 ms) ([], init_cumul (kams st)))"

section \<open>Notions used in the statements\<close>

text \<open>
  The records one pass of \<open>for kam in kams\<close> appends, those of one month of the outer
  loop, and the running sum that \<open>cumul[kam.name] += total\<close> builds from the records of
  one name, added from 0.0 in the order of the records.
\<close>

definition emitted ::
  "Store \<Rightarrow> (int \<rightharpoonup> prev_row) \<Rightarrow> date option \<Rightarrow> date \<Rightarrow> KAM list \<Rightarrow> ScoreItem list" where
  "emitted st pmap prev_m m ks =
     concat (map (\<lambda>k. case score_kam_month st pmap prev_m m k of
                          Inr (Some r) \<Rightarrow> [r] | _ \<Rightarrow> []) ks)"

definition emitted_at :: "Store \<Rightarrow> date list \<Rightarrow> nat \<times> date \<Rightarrow> ScoreItem list" where
  "emitted_at st ms im =
     emitted st (prev_proj_map st (prev_month ms (fst im))) (prev_month ms (fst im)) (snd im) (kams st)"

definition running_total :: "string \<Rightarrow> ScoreItem list \<Rightarrow> real" where
  "running_total n rs = fold (\<lambda>r c. c + total r) (filter (\<lambda>r. kam r = n) rs) 0"

text \<open>
  The format the specification names for \<open>sop_ym\<close> tokens, "YYYY-MM", read as four
  digits, a dash and two digits. It follows the specification's words; the code has no
  such check.
\<close>

definition matches_yyyy_mm :: "string \<Rightarrow> bool" where
  "matches_yyyy_mm s =
     (case s of
        [y1, y2, y3, y4, d, m1, m2] \<Rightarrow>
          is_digit y1 \<and> is_digit y2 \<and> is_digit y3 \<and> is_digit y4 \<and> d = CHR ''-'' \<and>
          is_digit m1 \<and> is_digit m2
      | _ \<Rightarrow> False)"

section \<open>Example stores\<close>

text \<open>
  The months are 2025-09-01 and 2025-10-01, the dates 739495 and 739525. \<open>st_first\<close> is
  the first example of the specification (Alice, one project, one month) and \<open>st_alice\<close>
  adds its second month; \<open>alice_m1\<close> and \<open>alice_m2\<close> are the records the engine emits
  for them.
\<close>

definition alice :: KAM where
  "alice = \<lparr>KAM.id' = 1, name = ''Alice'', region = ''EU''\<rparr>"

definition st_first :: Store where
  "st_first =
     \<lparr>kams = [\<lparr>KAM.id' = 1, name = ''Alice'', region = ''EU''\<rparr>],
      monthly_targets =
        [\<lparr>MonthlyTarget.id' = 1, kam_id = 1, month = 739495, target_pp = 40, target_lvp = 20\<rparr>],
      projects = [\<lparr>Project.id' = 1, kam_id = 1, code = ''AL-P1'', name = ''Proj AL-P1''\<rparr>],
      project_months =
        [\<lparr>ProjectMonth.id' = 1, project_id = 1, month = 739495, pp = 50, lvp = 30,
          sop_ym = ''2026-06'', foc2026_pp = 25, foc2026_sec = 21\<rparr>]\<rparr>"

definition st_alice :: Store where
  "st_alice =
     \<lparr>kams = [\<lparr>KAM.id' = 1, name = ''Alice'', region = ''EU''\<rparr>],
      monthly_targets =
        [\<lparr>MonthlyTarget.id' = 1, kam_id = 1, month = 739495, target_pp = 40, target_lvp = 20\<rparr>],
      projects = [\<lparr>Project.id' = 1, kam_id = 1, code = ''AL-P1'', name = ''Proj AL-P1''\<rparr>],
      project_months =
        [\<lparr>ProjectMonth.id' = 1, project_id = 1, month = 739495, pp = 50, lvp = 30,
          sop_ym = ''2026-06'', foc2026_pp = 25, foc2026_sec = 21\<rparr>,
         \<lparr>ProjectMonth.id' = 2, project_id = 1, month = 739525, pp = 40, lvp = 35,
          sop_ym = ''2026-06'', foc2026_pp = 20, foc2026_sec = 21\<rparr>]\<rparr>"

definition alice_m1 :: ScoreItem where
  "alice_m1 =
     \<lparr>kam = ''Alice'', month = 739495, points_gained_pp = 10, points_gained_lvp = 40,
      points_lost_sop_delay = 0, points_lost_volume_dec = 0, points_lost_pp_dec = 0,
      total = 50\<rparr>"

definition alice_m2 :: ScoreItem where
  "alice_m2 =
     \<lparr>kam = ''Alice'', month = 739525, points_gained_pp = 0, points_gained_lvp = 0,
      points_lost_sop_delay = 0, points_lost_volume_dec = 0, points_lost_pp_dec = 10,
      total = - 110\<rparr>"

text \<open>
  \<open>st_swap\<close>: Alice's projects 1 and 2 in the first month, 1 and 3 in the second.
\<close>

definition st_swap :: Store where
  "st_swap =
     \<lparr>kams = [\<lparr>KAM.id' = 1, name = ''Alice'', region = ''EU''\<rparr>],
      monthly_targets = [],
      projects =
        [\<lparr>Project.id' = 1, kam_id = 1, code = ''AL-P1'', name = ''Proj AL-P1''\<rparr>,
         \<lparr>Project.id' = 2, kam_id = 1, code = ''AL-P2'', name = ''Proj AL-P2''\<rparr>,
         \<lparr>Project.id' = 3, kam_id = 1, code = ''AL-P3'', name = ''Proj AL-P3''\<rparr>],
      project_months =
        [\<lparr>ProjectMonth.id' = 1, project_id = 1, month = 739495, pp = 50, lvp = 30,
          sop_ym = ''2026-06'', foc2026_pp = 25, foc2026_sec = 21\<rparr>,
         \<lparr>ProjectMonth.id' = 2, project_id = 2, month = 739495, pp = 20, lvp = 10,
          sop_ym = ''2026-04'', foc2026_pp = 10, foc2026_sec = 8\<rparr>,
         \<lparr>ProjectMonth.id' = 3, project_id = 1, month = 739525, pp = 50, lvp = 30,
          sop_ym = ''2026-06'', foc2026_pp = 25, foc2026_sec = 21\<rparr>,
         \<lparr>ProjectMonth.id' = 4, project_id = 3, month = 739525, pp = 20, lvp = 10,
          sop_ym = ''2026-08'', foc2026_pp = 10, foc2026_sec = 8\<rparr>]\<rparr>"

definition swap_m1 :: ScoreItem where
  "swap_m1 =
     \<lparr>kam = ''Alice'', month = 739495, points_gained_pp = 0, points_gained_lvp = 0,
      points_lost_sop_delay = 0, points_lost_volume_dec = 0, points_lost_pp_dec = 0,
      total = 0\<rparr>"

definition swap_m2 :: ScoreItem where
  "swap_m2 =
     \<lparr>kam = ''Alice'', month = 739525, points_gained_pp = 0, points_gained_lvp = 0,
      points_lost_sop_delay = 0, points_lost_volume_dec = 0, points_lost_pp_dec = 0,
      total = 0\<rparr>"

text \<open>
  \<open>st_team\<close>: Alice as in \<open>st_alice\<close>, Carla with a first project in the second month only,
  Dario without any project.
\<close>

definition carla :: KAM where
  "carla = \<lparr>KAM.id' = 3, name = ''Carla'', region = ''JP''\<rparr>"

definition dario :: KAM where
  "dario = \<lparr>KAM.id' = 4, name = ''Dario'', region = ''TW''\<rparr>"

definition st_team :: Store where
  "st_team =
     \<lparr>kams = [\<lparr>KAM.id' = 1, name = ''Alice'', region = ''EU''\<rparr>,
              \<lparr>KAM.id' = 3, name = ''Carla'', region = ''JP''\<rparr>,
              \<lparr>KAM.id' = 4, name = ''Dario'', region = ''TW''\<rparr>],
      monthly_targets =
        [\<lparr>MonthlyTarget.id' = 1, kam_id = 1, month = 739495, target_pp = 40, target_lvp = 20\<rparr>],
      projects =
        [\<lparr>Project.id' = 1, kam_id = 1, code = ''AL-P1'', name = ''Proj AL-P1''\<rparr>,
         \<lparr>Project.id' = 5, kam_id = 3, code = ''CA-P1'', name = ''Proj CA-P1''\<rparr>],
      project_months =
        [\<lparr>ProjectMonth.id' = 1, project_id = 1, month = 739495, pp = 50, lvp = 30,
          sop_ym = ''2026-06'', foc2026_pp = 25, foc2026_sec = 21\<rparr>,
         \<lparr>ProjectMonth.id' = 2, project_id = 1, month = 739525, pp = 40, lvp = 35,
          sop_ym = ''2026-06'', foc2026_pp = 20, foc2026_sec = 21\<rparr>,
         \<lparr>ProjectMonth.id' = 3, project_id = 5, month = 739525, pp = 30, lvp = 10,
          sop_ym = ''2026-09'', foc2026_pp = 15, foc2026_sec = 7\<rparr>]\<rparr>"

definition carla_m2 :: ScoreItem where
  "carla_m2 =
     \<lparr>kam = ''Carla'', month = 739525, points_gained_pp = 0, points_gained_lvp = 0,
      points_lost_sop_delay = 0, points_lost_volume_dec = 0, points_lost_pp_dec = 0,
      total = 0\<rparr>"

text \<open>
  \<open>st_two\<close>: Alice's project 1 keeps its delivery month and its lvp while its pp falls;
  Bob's project 2 slips by two months and gains 10 of lvp.
\<close>

definition st_two :: Store where
  "st_two =
     \<lparr>kams = [\<lparr>KAM.id' = 1, name = ''Alice'', region = ''EU''\<rparr>,
              \<lparr>KAM.id' = 2, name = ''Bob'', region = ''JP''\<rparr>],
      monthly_targets = [],
      projects =
        [\<lparr>Project.id' = 1, kam_id = 1, code = ''AL-P1'', name = ''Proj AL-P1''\<rparr>,
         \<lparr>Project.id' = 2, kam_id = 2, code = ''BO-P1'', name = ''Proj BO-P1''\<rparr>],
      project_months =
        [\<lparr>ProjectMonth.id' = 1, project_id = 1, month = 739495, pp = 50, lvp = 30,
          sop_ym = ''2026-06'', foc2026_pp = 25, foc2026_sec = 10\<rparr>,
         \<lparr>ProjectMonth.id' = 2, project_id = 2, month = 739495, pp = 60, lvp = 20,
          sop_ym = ''2026-03'', foc2026_pp = 30, foc2026_sec = 5\<rparr>,
         \<lparr>ProjectMonth.id' = 3, project_id = 1, month = 739525, pp = 40, lvp = 30,
          sop_ym = ''2026-06'', foc2026_pp = 20, foc2026_sec = 10\<rparr>,
         \<lparr>ProjectMonth.id' = 4, project_id = 2, month = 739525, pp = 60, lvp = 30,
          sop_ym = ''2026-05'', foc2026_pp = 30, foc2026_sec = 5\<rparr>]\<rparr>"

text \<open>
  \<open>st_neg\<close>, with the months 2026-01-01 and 2026-02-01 (739617 and 739648): Alice's
  project 1 is unchanged over the two months; Bob's project 2 has its only snapshot in the
  second month, with the figures \<open>/input_month\<close> stores for \<open>new_projects = 1\<close>,
  \<open>added_pp = -10\<close>, \<open>added_lvp = -10\<close> and the default ratios.
\<close>

definition st_neg :: Store where
  "st_neg =
     \<lparr>kams = [\<lparr>KAM.id' = 1, name = ''Alice'', region = ''EU''\<rparr>,
              \<lparr>KAM.id' = 2, name = ''Bob'', region = ''JP''\<rparr>],
      monthly_targets =
        [\<lparr>MonthlyTarget.id' = 1, kam_id = 2, month = 739648, target_pp = 80, target_lvp = 40\<rparr>],
      projects =
        [\<lparr>Project.id' = 1, kam_id = 1, code = ''AL-P1'', name = ''Proj AL-P1''\<rparr>,
         \<lparr>Project.id' = 2, kam_id = 2, code = ''BO-M02-1234'', name = ''Manual BO-M02-1234''\<rparr>],
      project_months =
        [\<lparr>ProjectMonth.id' = 1, project_id = 1, month = 739617, pp = 50, lvp = 30,
          sop_ym = ''2026-06'', foc2026_pp = 25, foc2026_sec = 21\<rparr>,
         \<lparr>ProjectMonth.id' = 2, project_id = 1, month = 739648, pp = 50, lvp = 30,
          sop_ym = ''2026-06'', foc2026_pp = 25, foc2026_sec = 21\<rparr>,
         \<lparr>ProjectMonth.id' = 3, project_id = 2, month = 739648, pp = - 10, lvp = - 10,
          sop_ym = ''2026-06'', foc2026_pp = - 5, foc2026_sec = - 7\<rparr>]\<rparr>"

text \<open>
  \<open>st_tok\<close> and \<open>st_bad\<close> are \<open>st_alice\<close> with the second token written 2026-7 and
  2026/07.
\<close>

definition st_tok :: Store where
  "st_tok =
     \<lparr>kams = [\<lparr>KAM.id' = 1, name = ''Alice'', region = ''EU''\<rparr>],
      monthly_targets =
        [\<lparr>MonthlyTarget.id' = 1, kam_id = 1, month = 739495, target_pp = 40, target_lvp = 20\<rparr>],
      projects = [\<lparr>Project.id' = 1, kam_id = 1, code = ''AL-P1'', name = ''Proj AL-P1''\<rparr>],
      project_months =
        [\<lparr>ProjectMonth.id' = 1, project_id = 1, month = 739495, pp = 50, lvp = 30,
          sop_ym = ''2026-06'', foc2026_pp = 25, foc2026_sec = 21\<rparr>,
         \<lparr>ProjectMonth.id' = 2, project_id = 1, month = 739525, pp = 40, lvp = 35,
          sop_ym = ''2026-7'', foc2026_pp = 20, foc2026_sec = 21\<rparr>]\<rparr>"

definition st_bad :: Store where
  "st_bad =
     \<lparr>kams = [\<lparr>KAM.id' = 1, name = ''Alice'', region = ''EU''\<rparr>],
      monthly_targets =
        [\<lparr>MonthlyTarget.id' = 1, kam_id = 1, month = 739495, target_pp = 40, target_lvp = 20\<rparr>],
      projects = [\<lparr>Project.id' = 1, kam_id = 1, code = ''AL-P1'', name = ''Proj AL-P1''\<rparr>],
      project_months =
        [\<lparr>ProjectMonth.id' = 1, project_id = 1, month = 739495, pp = 50, lvp = 30,
          sop_ym = ''2026-06'', foc2026_pp = 25, foc2026_sec = 21\<rparr>,
         \<lparr>ProjectMonth.id' = 2, project_id = 1, month = 739525, pp = 40, lvp = 35,
          sop_ym = ''2026/07'', foc2026_pp = 20, foc2026_sec = 21\<rparr>]\<rparr>"

definition bad_row :: ProjectMonth where
  "bad_row =
     \<lparr>ProjectMonth.id' = 2, project_id = 1, month = 739525, pp = 40, lvp = 35,
      sop_ym = ''2026/07'', foc2026_pp = 20, foc2026_sec = 21\<rparr>"

definition bad_prev :: prev_row where
  "bad_prev = \<lparr>pp = 50, lvp = 30, sop = ''2026-06'', foc = 21\<rparr>"

section \<open>Exceptions: \<open>ValueError\<close> and \<open>OverflowError\<close>, from the slippage loop\<close>

text \<open>
  The parser on some tokens: a separator character (code 28) is not stripped and makes the
  token invalid, a no-break space (code 160) is stripped, an underscore must stand between
  two digits. The last lemma is a slippage that does not fit a float: the year of the
  current token has 310 digits.
\<close>

lemma ym_to_int_examples:
  "ym_to_int ''2026-07'' = Inr 24319"
  "ym_to_int ''2026-7'' = Inr 24319"
  "ym_to_int '' 2_026-+7 '' = Inr 24319"
  "ym_to_int (''2026-'' @ [CHR 0xA0] @ ''07'') = Inr 24319"
  "ym_to_int (''2026-'' @ [CHR 0x1C] @ ''07'') = Inl ValueError"
  "ym_to_int ''2026-0_'' = Inl ValueError"
  "ym_to_int ''2026/07'' = Inl ValueError"
  "ym_to_int ''2026-07-01'' = Inl ValueError"
  by code_simp+

lemma int_to_float_overflows_threshold:
  "int_to_float_overflows (2 ^ 1024 - 2 ^ 970)"
  "\<not> int_to_float_overflows (2 ^ 1024 - 2 ^ 970 - 1)"
  by (simp_all add: int_to_float_overflows_def)

lemma sop_delay_rows_overflow:
  "sop_delay_rows (prev_proj_map st_alice (Some 739495))
     [\<lparr>ProjectMonth.id' = 2, project_id = 1, month = 739525, pp = 40, lvp = 35,
       sop_ym = ''1000000000000000000000000000000000000000000000000000000000000000000000000000000000000000000000000000000000000000000000000000000000000000000000000000000000000000000000000000000000000000000000000000000000000000000000000000000000000000000000000000000000000000000000000000000000000000000000000000000000000000000000-06'', foc2026_pp = 20, foc2026_sec = 21\<rparr>] 0 = Inl OverflowError"
  by code_simp

lemma py_int_error: "py_int s = Inl e \<Longrightarrow> e = ValueError"
  by (auto simp: py_int_def Let_def split: list.splits if_splits option.splits)

lemma ym_to_int_error: "ym_to_int s = Inl e \<Longrightarrow> e = ValueError"
  by (auto simp: ym_to_int_def split: list.splits sum.splits dest: py_int_error)

lemma sop_delay_rows_error:
  "sop_delay_rows pmap cs loss = Inl e \<Longrightarrow> e = ValueError \<or> e = OverflowError"
proof (induction cs arbitrary: loss)
  case Nil
  then show ?case by simp
next
  case (Cons c cs)
  then show ?case
    by (auto simp: Let_def split: option.splits sum.splits if_splits dest: ym_to_int_error)
qed

lemma sop_delay_loss_error:
  "sop_delay_loss st pmap prev_m m = Inl e \<Longrightarrow> e = ValueError \<or> e = OverflowError"
  by (auto simp: sop_delay_loss_def split: option.splits dest: sop_delay_rows_error)

lemma score_kam_month_error:
  "score_kam_month st pmap prev_m m k = Inl e \<Longrightarrow> e = ValueError \<or> e = OverflowError"
  by (auto simp: score_kam_month_def Let_def split: if_splits sum.splits dest: sop_delay_loss_error)

lemma sop_delay_rows_fails:
  assumes "c \<in> set cs" and "pmap (project_id c) = Some prev"
    and "ym_to_int (sop_ym c) = Inl e \<or> ym_to_int (sop prev) = Inl e"
  shows "\<exists>e'. sop_delay_rows pmap cs loss = Inl e'"
  using assms(1)
proof (induction cs arbitrary: loss)
  case Nil
  then show ?case by simp
next
  case (Cons c' cs)
  show ?case
  proof (cases "c' = c")
    case True
    with assms(2,3) show ?thesis
      by (auto simp: Let_def split: sum.splits)
  next
    case False
    with Cons.prems have "c \<in> set cs" by simp
    from Cons.IH[OF this] show ?thesis
      by (auto simp: Let_def split: option.splits sum.splits)
  qed
qed

lemma score_kam_month_fails:
  assumes "kam_month_snaps st (KAM.id' k) (Some m) \<noteq> []"
    and "sop_delay_loss st pmap prev_m m = Inl e"
  shows "score_kam_month st pmap prev_m m k = Inl e"
  using assms by (simp add: score_kam_month_def Let_def)

lemma matches_yyyy_mm_parses:
  assumes "matches_yyyy_mm s"
  shows "\<exists>v. ym_to_int s = Inr v"
proof -
  from assms obtain y1 y2 y3 y4 m1 m2 where s: "s = [y1, y2, y3, y4, CHR ''-'', m1, m2]"
    and d: "is_digit y1" "is_digit y2" "is_digit y3" "is_digit y4" "is_digit m1" "is_digit m2"
    by (auto simp: matches_yyyy_mm_def split: list.splits)
  have nd: "c \<noteq> CHR ''-''" and ns: "\<not> is_space c" and np: "c \<noteq> CHR ''+''" if "is_digit c" for c
    using that by (auto simp: is_digit_def is_space_def)
  have sp: "split_on (CHR ''-'') s = [[y1, y2, y3, y4], [m1, m2]]"
    using d nd by (simp add: s)
  have y: "\<exists>a. py_int [y1, y2, y3, y4] = Inr a"
    using d nd ns np
    by (simp add: py_int_def strip_def Let_def count_digits_def int_max_str_digits_def)
  have m: "\<exists>b. py_int [m1, m2] = Inr b"
    using d nd ns np
    by (simp add: py_int_def strip_def Let_def count_digits_def int_max_str_digits_def)
  from y m show ?thesis by (auto simp: ym_to_int_def sp)
qed

section \<open>One score and its components\<close>


lemma score_kam_month_Some:
  assumes "score_kam_month st pmap prev_m m k = Inr (Some r)"
  shows "kam r = KAM.name k" and "ScoreItem.month r = m"
    and "kam_month_snaps st (KAM.id' k) (Some m) \<noteq> []"
  using assms by (auto simp: score_kam_month_def Let_def split: if_splits sum.splits)

lemma score_kam_month_fields:
  assumes "score_kam_month st pmap prev_m m k = Inr (Some r)"
  defines "snaps \<equiv> kam_month_snaps st (KAM.id' k) (Some m)"
    and "prev_snaps \<equiv> kam_month_snaps st (KAM.id' k) prev_m"
  defines "sum_pp \<equiv> sum_list (map ProjectMonth.pp snaps)"
    and "prev_pp \<equiv> sum_list (map ProjectMonth.pp prev_snaps)"
    and "sum_lvp \<equiv> sum_list (map ProjectMonth.lvp snaps)"
    and "prev_lvp \<equiv> sum_list (map ProjectMonth.lvp prev_snaps)"
  shows "points_gained_pp r =
           gained_pp_points (month_targets st (KAM.id' k) m) (max 0 (sum_pp - prev_pp))"
    and "points_gained_lvp r =
           gained_lvp_points (month_targets st (KAM.id' k) m) (max 0 (sum_lvp - prev_lvp))"
    and "sop_delay_loss st pmap prev_m m = Inr (points_lost_sop_delay r)"
    and "points_lost_volume_dec r = vol_dec_loss prev_m prev_snaps snaps"
    and "points_lost_pp_dec r =
           pp_dec_loss prev_m prev_pp (max 0 (sum_pp - prev_pp)) sum_pp (promotions st pmap prev_m m)"
    and "total r = points_gained_pp r + points_gained_lvp r
           - (points_lost_sop_delay r + points_lost_volume_dec r + points_lost_pp_dec r
              + inactivity_loss prev_m prev_snaps snaps)"
  using assms(1) unfolding snaps_def prev_snaps_def sum_pp_def prev_pp_def sum_lvp_def prev_lvp_def
  by (auto simp: score_kam_month_def Let_def split: if_splits sum.splits)

lemma gained_pp_points_nonneg: "0 \<le> gained_pp_points t a"
  by (simp add: gained_pp_points_def split: option.splits)

lemma gained_lvp_points_nonneg: "0 \<le> gained_lvp_points t a"
  by (simp add: gained_lvp_points_def split: option.splits)

lemma sop_delay_rows_mono: "sop_delay_rows pmap cs loss = Inr v \<Longrightarrow> loss \<le> v"
proof (induction cs arbitrary: loss)
  case Nil
  then show ?case by simp
next
  case (Cons c cs)
  show ?case
  proof (cases "pmap (project_id c)")
    case None
    with Cons show ?thesis by simp
  next
    case (Some prev)
    from Cons.prems Some obtain a b where a: "ym_to_int (sop_ym c) = Inr a"
      and b: "ym_to_int (sop prev) = Inr b"
      by (auto split: sum.splits)
    show ?thesis
    proof (cases "a - b > 0 \<and> foc prev > 0")
      case True
      with Cons.prems Some a b
      have "sop_delay_rows pmap cs (loss + 2 * foc prev * of_int (a - b)) = Inr v"
        by (simp add: Let_def split: if_splits)
      from Cons.IH[OF this]
      have "loss + 2 * foc prev * of_int (a - b) \<le> v" .
      moreover have "0 \<le> 2 * foc prev * of_int (a - b)" using True by simp
      ultimately show ?thesis by linarith
    next
      case False
      with Cons.prems Some a b have "sop_delay_rows pmap cs loss = Inr v"
        by (auto simp: Let_def)
      from Cons.IH[OF this] show ?thesis .
    qed
  qed
qed

lemma sop_delay_loss_nonneg: "sop_delay_loss st pmap prev_m m = Inr v \<Longrightarrow> 0 \<le> v"
  by (auto simp: sop_delay_loss_def split: option.splits dest: sop_delay_rows_mono)

lemma vol_dec_loss_nonneg: "0 \<le> vol_dec_loss prev_m prev_snaps snaps"
  by (simp add: vol_dec_loss_def Let_def split: option.splits)

lemma pp_dec_loss_nonneg: "0 \<le> pp_dec_loss prev_m a b c d"
  by (simp add: pp_dec_loss_def Let_def split: option.splits)

lemma inactivity_loss_nonneg: "0 \<le> inactivity_loss prev_m prev_snaps snaps"
  by (simp add: inactivity_loss_def Let_def split: option.splits)

lemma inactivity_loss_subset:
  "inactivity_loss (Some p) prev_snaps snaps =
     (if project_id ` set snaps \<subseteq> project_id ` set prev_snaps then 100 else 0)"
  by (simp add: inactivity_loss_def Let_def)

lemma kam_month_snaps_subset: "set (kam_month_snaps st kid m) \<subseteq> set (project_months st)"
  by (auto simp: kam_month_snaps_def split: option.splits if_splits)

lemma fold_upd_entry:
  "fold (\<lambda>x mp. mp(f x \<mapsto> g x)) xs m0 pid = Some e \<Longrightarrow>
     m0 pid = Some e \<or> (\<exists>x\<in>set xs. e = g x)"
  by (induction xs arbitrary: m0) (fastforce split: if_splits)+

lemma prev_proj_map_entry:
  assumes "prev_proj_map st prev_m pid = Some e"
  shows "\<exists>x\<in>set (project_months st). pp e = ProjectMonth.pp x"
proof (cases prev_m)
  case None
  with assms show ?thesis by (simp add: prev_proj_map_def)
next
  case (Some p)
  with assms have "fold (\<lambda>x mp. mp(project_id x \<mapsto>
                  \<lparr>pp = ProjectMonth.pp x, lvp = ProjectMonth.lvp x,
                   sop = sop_ym x, foc = foc2026_sec x\<rparr>))
               (month_rows st p) Map.empty pid = Some e"
    by (simp add: prev_proj_map_def)
  from fold_upd_entry[OF this] show ?thesis
    by (auto simp: month_rows_def)
qed

lemma promotions_rows_mono:
  "(\<And>pid e. pmap pid = Some e \<Longrightarrow> 0 \<le> pp e) \<Longrightarrow> acc \<le> promotions_rows pmap cs acc"
proof (induction pmap cs acc rule: promotions_rows.induct)
  case (1 pmap promotions)
  then show ?case by simp
next
  case (2 pmap c cs promotions)
  show ?case
  proof (cases "pmap (project_id c)")
    case None
    with 2 show ?thesis by simp
  next
    case (Some prev)
    let ?inc = "min (max 0 (ProjectMonth.lvp c - lvp prev)) (pp prev)"
    have "0 \<le> ?inc" using "2.prems"[OF Some] by simp
    moreover have "promotions + ?inc \<le> promotions_rows pmap cs (promotions + ?inc)"
      using "2.IH"(2)[OF Some refl] "2.prems" by simp
    ultimately show ?thesis using Some by (simp add: Let_def)
  qed
qed

lemma promotions_nonneg:
  assumes "\<forall>x\<in>set (project_months st). 0 \<le> ProjectMonth.pp x"
  shows "0 \<le> promotions st (prev_proj_map st prev_m) prev_m m"
proof (cases prev_m)
  case None
  then show ?thesis by (simp add: promotions_def)
next
  case (Some p)
  have "0 \<le> pp e" if "prev_proj_map st prev_m pid = Some e" for pid e
    using prev_proj_map_entry[OF that] assms by auto
  from promotions_rows_mono[of "prev_proj_map st prev_m" 0 "month_rows st m"] this Some
  show ?thesis by (simp add: promotions_def)
qed

lemma score_without_prev_snaps:
  assumes sc: "score_kam_month st (prev_proj_map st (Some p)) (Some p) m k = Inr (Some r)"
    and none: "kam_month_snaps st (KAM.id' k) (Some p) = []"
    and nonneg: "\<forall>x\<in>set (project_months st). 0 \<le> ProjectMonth.pp x \<and> 0 \<le> foc2026_sec x"
  shows "points_lost_volume_dec r = 0" and "points_lost_pp_dec r = 0"
    and "inactivity_loss (Some p) (kam_month_snaps st (KAM.id' k) (Some p))
           (kam_month_snaps st (KAM.id' k) (Some m)) = 0"
proof -
  let ?snaps = "kam_month_snaps st (KAM.id' k) (Some m)"
  note f = score_kam_month_fields[OF sc]
  have sub: "set ?snaps \<subseteq> set (project_months st)" by (rule kam_month_snaps_subset)
  have foc: "0 \<le> sum_list (map foc2026_sec ?snaps)"
    using sub nonneg by (intro sum_list_nonneg) auto
  have spp: "0 \<le> sum_list (map ProjectMonth.pp ?snaps)"
    using sub nonneg by (intro sum_list_nonneg) auto
  have pr: "0 \<le> promotions st (prev_proj_map st (Some p)) (Some p) m"
    using nonneg by (intro promotions_nonneg) auto
  show "points_lost_volume_dec r = 0"
    using foc by (simp add: f(4) none vol_dec_loss_def Let_def)
  show "points_lost_pp_dec r = 0"
    using spp pr by (simp add: f(5) none pp_dec_loss_def Let_def max_def)
  have "?snaps \<noteq> []" using score_kam_month_Some(3)[OF sc] .
  then have "set (map project_id ?snaps) \<noteq> {}" by simp
  then show "inactivity_loss (Some p) (kam_month_snaps st (KAM.id' k) (Some p)) ?snaps = 0"
    by (simp add: none inactivity_loss_def Let_def)
qed

section \<open>The loop over the KAMs\<close>

lemma running_total_snoc:
  "running_total n (rs @ [r]) = (if kam r = n then running_total n rs + total r else running_total n rs)"
  by (simp add: running_total_def)


lemma in_emitted:
  "r \<in> set (emitted st pmap prev_m m ks) \<longleftrightarrow>
     (\<exists>k\<in>set ks. score_kam_month st pmap prev_m m k = Inr (Some r))"
proof (induction ks)
  case Nil
  then show ?case by (simp add: emitted_def)
next
  case (Cons k ks)
  have "r \<in> set (emitted st pmap prev_m m (k # ks)) \<longleftrightarrow>
          score_kam_month st pmap prev_m m k = Inr (Some r) \<or> r \<in> set (emitted st pmap prev_m m ks)"
    by (auto simp: emitted_def split: sum.splits option.splits)
  with Cons.IH show ?case by auto
qed

lemma kam_loop_results:
  "kam_loop st pmap prev_m m ks (res, cum) = Inr (res', cum') \<Longrightarrow>
     res' = res @ emitted st pmap prev_m m ks"
proof (induction ks arbitrary: res cum)
  case Nil
  then show ?case by (simp add: emitted_def)
next
  case (Cons k ks)
  have step: "emitted st pmap prev_m m (k # ks) =
      (case score_kam_month st pmap prev_m m k of Inr (Some r) \<Rightarrow> [r] | _ \<Rightarrow> [])
        @ emitted st pmap prev_m m ks"
    by (simp add: emitted_def)
  show ?case
  proof (cases "score_kam_month st pmap prev_m m k")
    case (Inl e)
    with Cons.prems show ?thesis by simp
  next
    case (Inr o')
    show ?thesis
    proof (cases o')
      case None
      with Inr Cons.prems have "kam_loop st pmap prev_m m ks (res, cum) = Inr (res', cum')"
        by simp
      from Cons.IH[OF this] show ?thesis by (simp add: step Inr None)
    next
      case (Some r)
      with Inr Cons.prems obtain w where
        rest: "kam_loop st pmap prev_m m ks
                (res @ [r], AList.update (KAM.name k) (w + total r) cum) = Inr (res', cum')"
        by (auto split: option.splits)
      from Cons.IH[OF rest] show ?thesis by (simp add: step Inr Some)
    qed
  qed
qed

lemma kam_loop_no_error:
  "kam_loop st pmap prev_m m ks (res, cum) = Inr acc' \<Longrightarrow> k \<in> set ks \<Longrightarrow>
     score_kam_month st pmap prev_m m k \<noteq> Inl e"
  by (induction ks arbitrary: res cum)
     (auto split: sum.splits option.splits)

lemma kam_loop_keys:
  "kam_loop st pmap prev_m m ks (res, cum) = Inr (res', cum') \<Longrightarrow>
     fst ` set cum' = fst ` set cum"
proof (induction ks arbitrary: res cum)
  case Nil
  then show ?case by simp
next
  case (Cons k ks)
  show ?case
  proof (cases "score_kam_month st pmap prev_m m k")
    case (Inl e)
    with Cons.prems show ?thesis by simp
  next
    case (Inr o')
    show ?thesis
    proof (cases o')
      case None
      with Inr Cons show ?thesis by simp
    next
      case (Some r)
      with Inr Cons.prems obtain v where v: "map_of cum (KAM.name k) = Some v"
        and rest: "kam_loop st pmap prev_m m ks
                (res @ [r], AList.update (KAM.name k) (v + total r) cum) = Inr (res', cum')"
        by (auto split: option.splits)
      from v have "KAM.name k \<in> fst ` set cum"
        by (meson domI dom_map_of_conv_image_fst[THEN equalityD1, THEN subsetD] )
      with Cons.IH[OF rest] show ?thesis
        by (auto simp: dom_update)
    qed
  qed
qed

lemma kam_loop_totals:
  assumes "kam_loop st pmap prev_m m ks (res, cum) = Inr (res', cum')"
    and "\<And>n v. map_of cum n = Some v \<Longrightarrow> v = running_total n res"
    and "map_of cum' n = Some v"
  shows "v = running_total n res'"
  using assms
proof (induction ks arbitrary: res cum)
  case Nil
  then show ?case by simp
next
  case (Cons k ks)
  show ?case
  proof (cases "score_kam_month st pmap prev_m m k")
    case (Inl e)
    with Cons.prems show ?thesis by simp
  next
    case (Inr o')
    show ?thesis
    proof (cases o')
      case None
      with Inr Cons.prems(1) have "kam_loop st pmap prev_m m ks (res, cum) = Inr (res', cum')"
        by simp
      from Cons.IH[OF this Cons.prems(2) Cons.prems(3)] show ?thesis .
    next
      case (Some r)
      with Inr Cons.prems(1) obtain w where w: "map_of cum (KAM.name k) = Some w"
        and rest: "kam_loop st pmap prev_m m ks
                (res @ [r], AList.update (KAM.name k) (w + total r) cum) = Inr (res', cum')"
        by (auto split: option.splits)
      have kr: "kam r = KAM.name k"
        using Inr Some score_kam_month_Some(1) by simp
      have inv: "\<And>n' v'. map_of (AList.update (KAM.name k) (w + total r) cum) n' = Some v'
                 \<Longrightarrow> v' = running_total n' (res @ [r])"
        using Cons.prems(2) w kr
        by (auto simp: update_conv' running_total_snoc split: if_splits)
      from Cons.IH[OF rest inv Cons.prems(3)] show ?thesis .
    qed
  qed
qed

lemma kam_loop_not_KeyError:
  assumes "KAM.name ` set ks \<subseteq> fst ` set cum"
  shows "kam_loop st pmap prev_m m ks (res, cum) \<noteq> Inl KeyError"
  using assms
proof (induction ks arbitrary: res cum)
  case Nil
  then show ?case by simp
next
  case (Cons k ks)
  have "KAM.name k \<in> fst ` set cum" using Cons.prems by simp
  then obtain w where w: "map_of cum (KAM.name k) = Some w"
    by (metis domD dom_map_of_conv_image_fst)
  have sub: "\<And>x. KAM.name ` set ks \<subseteq> fst ` set (AList.update (KAM.name k) x cum)"
    using Cons.prems by (auto simp: dom_update)
  show ?case
    using Cons.IH[OF sub] Cons.IH[of cum res] Cons.prems w
    by (auto split: sum.splits option.splits dest: score_kam_month_error)
qed



section \<open>The loop over the months\<close>

lemma month_loop_results:
  "month_loop st ms ims (res, cum) = Inr (res', cum') \<Longrightarrow>
     res' = res @ concat (map (emitted_at st ms) ims)"
proof (induction ims arbitrary: res cum)
  case Nil
  then show ?case by simp
next
  case (Cons im ims)
  obtain mi m where im: "im = (mi, m)" by (cases im)
  let ?p = "prev_month ms mi"
  from Cons.prems im obtain res1 cum1 where
    k: "kam_loop st (prev_proj_map st ?p) ?p m (kams st) (res, cum) = Inr (res1, cum1)"
    and rest: "month_loop st ms ims (res1, cum1) = Inr (res', cum')"
    by (auto simp: Let_def split: sum.splits)
  from kam_loop_results[OF k] Cons.IH[OF rest] show ?case
    by (simp add: im emitted_at_def)
qed

lemma month_loop_keys:
  "month_loop st ms ims (res, cum) = Inr (res', cum') \<Longrightarrow> fst ` set cum' = fst ` set cum"
proof (induction ims arbitrary: res cum)
  case Nil
  then show ?case by simp
next
  case (Cons im ims)
  obtain mi m where im: "im = (mi, m)" by (cases im)
  let ?p = "prev_month ms mi"
  from Cons.prems im obtain res1 cum1 where
    k: "kam_loop st (prev_proj_map st ?p) ?p m (kams st) (res, cum) = Inr (res1, cum1)"
    and rest: "month_loop st ms ims (res1, cum1) = Inr (res', cum')"
    by (auto simp: Let_def split: sum.splits)
  from kam_loop_keys[OF k] Cons.IH[OF rest] show ?case by simp
qed

lemma month_loop_totals:
  assumes "month_loop st ms ims (res, cum) = Inr (res', cum')"
    and "\<And>n v. map_of cum n = Some v \<Longrightarrow> v = running_total n res"
    and "map_of cum' n = Some v"
  shows "v = running_total n res'"
  using assms
proof (induction ims arbitrary: res cum)
  case Nil
  then show ?case by simp
next
  case (Cons im ims)
  obtain mi m where im: "im = (mi, m)" by (cases im)
  let ?p = "prev_month ms mi"
  from Cons.prems(1) im obtain res1 cum1 where
    k: "kam_loop st (prev_proj_map st ?p) ?p m (kams st) (res, cum) = Inr (res1, cum1)"
    and rest: "month_loop st ms ims (res1, cum1) = Inr (res', cum')"
    by (auto simp: Let_def split: sum.splits)
  have inv: "\<And>n' v'. map_of cum1 n' = Some v' \<Longrightarrow> v' = running_total n' res1"
    using kam_loop_totals[OF k Cons.prems(2)] by blast
  from Cons.IH[OF rest inv Cons.prems(3)] show ?case .
qed

lemma month_loop_no_error:
  assumes "month_loop st ms ims (res, cum) = Inr acc'"
    and "(mi, m) \<in> set ims" and "k \<in> set (kams st)"
  shows "score_kam_month st (prev_proj_map st (prev_month ms mi)) (prev_month ms mi) m k \<noteq> Inl e"
  using assms
proof (induction ims arbitrary: res cum)
  case Nil
  then show ?case by simp
next
  case (Cons im ims)
  obtain mi' m' where im: "im = (mi', m')" by (cases im)
  let ?p = "prev_month ms mi'"
  from Cons.prems(1) im obtain res1 cum1 where
    k: "kam_loop st (prev_proj_map st ?p) ?p m' (kams st) (res, cum) = Inr (res1, cum1)"
    and rest: "month_loop st ms ims (res1, cum1) = Inr acc'"
    by (auto simp: Let_def split: sum.splits)
  show ?case
  proof (cases "(mi, m) = im")
    case True
    with im kam_loop_no_error[OF k Cons.prems(3)] show ?thesis by simp
  next
    case False
    with Cons.prems(2) have "(mi, m) \<in> set ims" by simp
    from Cons.IH[OF rest this Cons.prems(3)] show ?thesis .
  qed
qed

lemma month_loop_not_KeyError:
  assumes "KAM.name ` set (kams st) \<subseteq> fst ` set cum"
  shows "month_loop st ms ims (res, cum) \<noteq> Inl KeyError"
  using assms
proof (induction ims arbitrary: res cum)
  case Nil
  then show ?case by simp
next
  case (Cons im ims)
  obtain mi m where im: "im = (mi, m)" by (cases im)
  let ?p = "prev_month ms mi"
  show ?case
  proof (cases "kam_loop st (prev_proj_map st ?p) ?p m (kams st) (res, cum)")
    case (Inl e)
    with kam_loop_not_KeyError[OF Cons.prems, of st "prev_proj_map st ?p" ?p m res]
    show ?thesis by (simp add: im Let_def)
  next
    case (Inr acc1)
    obtain res1 cum1 where acc1: "acc1 = (res1, cum1)" by (cases acc1)
    from kam_loop_keys[OF Inr[unfolded acc1]] Cons.prems
    have "KAM.name ` set (kams st) \<subseteq> fst ` set cum1" by simp
    from Cons.IH[OF this] show ?thesis by (simp add: im Let_def Inr acc1)
  qed
qed


lemma months_sorted_distinct: "sorted (months st) \<and> distinct (months st)"
  by (simp add: months_def)

lemma in_enumerate_iff:
  "(mi, m) \<in> set (enumerate 0 ms) \<longleftrightarrow> mi < length ms \<and> ms ! mi = m"
  by (auto simp: in_set_enumerate_eq)

section \<open>The whole run\<close>

lemma init_cumul_keys_aux:
  "fst ` set (fold (\<lambda>k c. AList.update (KAM.name k) 0 c) ks c0) = KAM.name ` set ks \<union> fst ` set c0"
  by (induction ks arbitrary: c0) (auto simp: dom_update)

lemma init_cumul_keys: "fst ` set (init_cumul ks) = KAM.name ` set ks"
  by (simp add: init_cumul_def init_cumul_keys_aux)

lemma init_cumul_zero_aux:
  "(\<And>n v. map_of c0 n = Some v \<Longrightarrow> v = (0::real)) \<Longrightarrow>
   map_of (fold (\<lambda>k c. AList.update (KAM.name k) 0 c) ks c0) n = Some v \<Longrightarrow> v = 0"
proof (induction ks arbitrary: c0)
  case Nil
  then show ?case by simp
next
  case (Cons k ks)
  have "\<And>n v. map_of (AList.update (KAM.name k) 0 c0) n = Some v \<Longrightarrow> v = (0::real)"
    using Cons.prems(1) by (auto simp: update_conv' split: if_splits)
  from Cons.IH[OF this] Cons.prems(2) show ?case by simp
qed

lemma init_cumul_zero: "map_of (init_cumul ks) n = Some v \<Longrightarrow> v = 0"
  unfolding init_cumul_def by (rule init_cumul_zero_aux[of "[]"]) simp_all

lemma calc_scores_results:
  "calc_scores st = Inr (results, cumul) \<Longrightarrow>
     results = concat (map (emitted_at st (months st)) (enumerate 0 (months st)))"
  unfolding calc_scores_def Let_def by (drule month_loop_results) simp

lemma calc_scores_keys:
  "calc_scores st = Inr (results, cumul) \<Longrightarrow> fst ` set cumul = KAM.name ` set (kams st)"
  unfolding calc_scores_def Let_def by (drule month_loop_keys) (simp add: init_cumul_keys)

lemma calc_scores_totals:
  assumes "calc_scores st = Inr (results, cumul)" and "map_of cumul n = Some v"
  shows "v = running_total n results"
proof -
  have "\<And>n v. map_of (init_cumul (kams st)) n = Some v \<Longrightarrow> v = running_total n []"
    by (simp add: running_total_def init_cumul_zero)
  from month_loop_totals[OF assms(1)[unfolded calc_scores_def Let_def] this assms(2)]
  show ?thesis .
qed

lemma calc_scores_error: "calc_scores st = Inl e \<Longrightarrow> e = ValueError \<or> e = OverflowError"
  using month_loop_not_KeyError[of st "init_cumul (kams st)" "months st" "enumerate 0 (months st)" "[]"]
  by (cases e) (simp_all add: calc_scores_def Let_def init_cumul_keys)

lemma calc_scores_origin:
  assumes "calc_scores st = Inr (results, cumul)" and "r \<in> set results"
  shows "\<exists>k\<in>set (kams st). \<exists>mi<length (months st).
           score_kam_month st (prev_proj_map st (prev_month (months st) mi))
             (prev_month (months st) mi) (months st ! mi) k = Inr (Some r)"
proof -
  obtain im where im: "im \<in> set (enumerate 0 (months st))"
    and r: "r \<in> set (emitted_at st (months st) im)"
    using calc_scores_results[OF assms(1)] assms(2) by auto
  obtain mi m where [simp]: "im = (mi, m)" by (cases im)
  from im have "mi < length (months st)" "months st ! mi = m"
    by (simp_all add: in_enumerate_iff)
  with r show ?thesis
    by (auto simp: emitted_at_def in_emitted)
qed

lemma calc_scores_no_error:
  assumes "calc_scores st = Inr acc" and "mi < length (months st)" and "k \<in> set (kams st)"
  shows "score_kam_month st (prev_proj_map st (prev_month (months st) mi))
             (prev_month (months st) mi) (months st ! mi) k \<noteq> Inl e"
proof -
  from assms(2) have "(mi, months st ! mi) \<in> set (enumerate 0 (months st))"
    by (simp add: in_enumerate_iff)
  from month_loop_no_error[OF assms(1)[unfolded calc_scores_def Let_def] this assms(3)]
  show ?thesis .
qed

lemma calc_scores_record_of:
  assumes "calc_scores st = Inr (results, cumul)" and "r \<in> set results"
    and "k \<in> set (kams st)" and "distinct (map KAM.name (kams st))"
    and "kam r = KAM.name k"
    and "mi < length (months st)" and "ScoreItem.month r = months st ! mi"
  shows "score_kam_month st (prev_proj_map st (prev_month (months st) mi))
           (prev_month (months st) mi) (months st ! mi) k = Inr (Some r)"
proof -
  from calc_scores_origin[OF assms(1,2)] obtain k' mi' where k': "k' \<in> set (kams st)"
    and mi': "mi' < length (months st)"
    and sc: "score_kam_month st (prev_proj_map st (prev_month (months st) mi'))
               (prev_month (months st) mi') (months st ! mi') k' = Inr (Some r)"
    by blast
  from score_kam_month_Some(1)[OF sc] assms(5) have "KAM.name k' = KAM.name k" by simp
  with assms(3,4) k' have "k' = k" by (meson distinct_map inj_onD)
  moreover from score_kam_month_Some(2)[OF sc] assms(7)
  have "months st ! mi' = months st ! mi" by simp
  with mi' assms(6) months_sorted_distinct[of st] have "mi' = mi"
    by (simp add: nth_eq_iff_index_eq)
  ultimately show ?thesis using sc by simp
qed

section \<open>The example stores, evaluated\<close>

lemma st_first_scores: "calc_scores st_first = Inr ([alice_m1], [(''Alice'', 50)])"
  by code_simp

lemma st_alice_scores:
  "calc_scores st_alice = Inr ([alice_m1, alice_m2], [(''Alice'', - 60)])"
  by code_simp

lemma st_swap_scores: "calc_scores st_swap = Inr ([swap_m1, swap_m2], [(''Alice'', 0)])"
  by code_simp

lemma st_team_scores:
  "calc_scores st_team =
     Inr ([alice_m1, alice_m2, carla_m2], [(''Alice'', - 60), (''Carla'', 0), (''Dario'', 0)])"
  by code_simp

lemma st_two_scores:
  "calc_scores st_two =
     Inr ([\<lparr>kam = ''Alice'', month = 739495, points_gained_pp = 0, points_gained_lvp = 0,
            points_lost_sop_delay = 0, points_lost_volume_dec = 0, points_lost_pp_dec = 0,
            total = 0\<rparr>,
           \<lparr>kam = ''Bob'', month = 739495, points_gained_pp = 0, points_gained_lvp = 0,
            points_lost_sop_delay = 0, points_lost_volume_dec = 0, points_lost_pp_dec = 0,
            total = 0\<rparr>,
           \<lparr>kam = ''Alice'', month = 739525, points_gained_pp = 0, points_gained_lvp = 0,
            points_lost_sop_delay = 20, points_lost_volume_dec = 0, points_lost_pp_dec = 0,
            total = - 120\<rparr>,
           \<lparr>kam = ''Bob'', month = 739525, points_gained_pp = 0, points_gained_lvp = 0,
            points_lost_sop_delay = 20, points_lost_volume_dec = 0, points_lost_pp_dec = 0,
            total = - 120\<rparr>],
          [(''Alice'', - 120), (''Bob'', - 120)])"
  by code_simp

lemma st_neg_scores:
  "calc_scores st_neg =
     Inr ([\<lparr>kam = ''Alice'', month = 739617, points_gained_pp = 0, points_gained_lvp = 0,
            points_lost_sop_delay = 0, points_lost_volume_dec = 0, points_lost_pp_dec = 0,
            total = 0\<rparr>,
           \<lparr>kam = ''Alice'', month = 739648, points_gained_pp = 0, points_gained_lvp = 0,
            points_lost_sop_delay = 0, points_lost_volume_dec = 0, points_lost_pp_dec = 0,
            total = - 100\<rparr>,
           \<lparr>kam = ''Bob'', month = 739648, points_gained_pp = 0, points_gained_lvp = 0,
            points_lost_sop_delay = 0, points_lost_volume_dec = 14, points_lost_pp_dec = 20,
            total = - 34\<rparr>],
          [(''Alice'', - 100), (''Bob'', - 34)])"
  by code_simp

lemma st_tok_scores:
  "calc_scores st_tok =
     Inr ([alice_m1,
           \<lparr>kam = ''Alice'', month = 739525, points_gained_pp = 0, points_gained_lvp = 0,
            points_lost_sop_delay = 42, points_lost_volume_dec = 0, points_lost_pp_dec = 10,
            total = - 152\<rparr>],
          [(''Alice'', - 102)])"
  by code_simp

section \<open>The claims\<close>

text \<open>
  C1, at a store where the code departs from it: Alice owns project 1, whose delivery month
  stays 2026-06, and Bob owns project 2, which slips from 2026-03 to 2026-05 with a previous
  foc2026_sec of 5. The claim gives Alice a slippage loss of 0; the engine charges her
  2 * 5 * 2 = 20, the loss of Bob's project, because the slippage loop reads every snapshot
  of the month and not only those of the KAM being scored.
\<close>

theorem C1_slippage_of_other_kam_charged:
  "map project_id (kam_month_snaps st_two 1 (Some 739495)) = [1] \<and>
   map sop_ym (kam_month_snaps st_two 1 (Some 739495)) = [''2026-06''] \<and>
   map project_id (kam_month_snaps st_two 1 (Some 739525)) = [1] \<and>
   map sop_ym (kam_month_snaps st_two 1 (Some 739525)) = [''2026-06''] \<and>
   sop_delay_loss st_two (prev_proj_map st_two (Some 739495)) (Some 739495) 739525 = Inr 20 \<and>
   calc_scores st_two =
     Inr ([\<lparr>kam = ''Alice'', month = 739495, points_gained_pp = 0, points_gained_lvp = 0,
            points_lost_sop_delay = 0, points_lost_volume_dec = 0, points_lost_pp_dec = 0,
            total = 0\<rparr>,
           \<lparr>kam = ''Bob'', month = 739495, points_gained_pp = 0, points_gained_lvp = 0,
            points_lost_sop_delay = 0, points_lost_volume_dec = 0, points_lost_pp_dec = 0,
            total = 0\<rparr>,
           \<lparr>kam = ''Alice'', month = 739525, points_gained_pp = 0, points_gained_lvp = 0,
            points_lost_sop_delay = 20, points_lost_volume_dec = 0, points_lost_pp_dec = 0,
            total = - 120\<rparr>,
           \<lparr>kam = ''Bob'', month = 739525, points_gained_pp = 0, points_gained_lvp = 0,
            points_lost_sop_delay = 20, points_lost_volume_dec = 0, points_lost_pp_dec = 0,
            total = - 120\<rparr>],
          [(''Alice'', - 120), (''Bob'', - 120)])"
proof -
  have a: "kam_month_snaps st_two 1 (Some 739495) =
      [\<lparr>ProjectMonth.id' = 1, project_id = 1, month = 739495, pp = 50, lvp = 30,
          sop_ym = ''2026-06'', foc2026_pp = 25, foc2026_sec = 10\<rparr>]"
    by (simp add: kam_month_snaps_def st_two_def)
  have b: "kam_month_snaps st_two 1 (Some 739525) =
      [\<lparr>ProjectMonth.id' = 3, project_id = 1, month = 739525, pp = 40, lvp = 30,
          sop_ym = ''2026-06'', foc2026_pp = 20, foc2026_sec = 10\<rparr>]"
    by (simp add: kam_month_snaps_def st_two_def)
  have c: "sop_delay_loss st_two (prev_proj_map st_two (Some 739495)) (Some 739495) 739525 = Inr 20"
    by code_simp
  show ?thesis using st_two_scores a b c by simp
qed

text \<open>
  C2, at the same store: Alice's pp falls from 50 to 40 while the lvp of her only project
  stays 30, so her own promotions are 0, left = 50, right = 40, and the claim gives a
  pp-decrease loss of 2 * (50 - 40) = 20. The engine credits her with the promotion of Bob's
  project 2 (lvp 20 to 30, capped by its previous pp 60: 10), so right = 50 and her loss is
  0: the promotions loop reads every snapshot of the month.
\<close>

theorem C2_promotion_of_other_kam_credited:
  "map ProjectMonth.pp (kam_month_snaps st_two 1 (Some 739495)) = [50] \<and>
   map ProjectMonth.lvp (kam_month_snaps st_two 1 (Some 739495)) = [30] \<and>
   map ProjectMonth.pp (kam_month_snaps st_two 1 (Some 739525)) = [40] \<and>
   map ProjectMonth.lvp (kam_month_snaps st_two 1 (Some 739525)) = [30] \<and>
   promotions st_two (prev_proj_map st_two (Some 739495)) (Some 739495) 739525 = 10 \<and>
   score_kam_month st_two (prev_proj_map st_two (Some 739495)) (Some 739495) 739525 alice =
     Inr (Some \<lparr>kam = ''Alice'', month = 739525, points_gained_pp = 0, points_gained_lvp = 0,
                points_lost_sop_delay = 20, points_lost_volume_dec = 0,
                points_lost_pp_dec = 0, total = - 120\<rparr>)"
proof -
  have a: "kam_month_snaps st_two 1 (Some 739495) =
      [\<lparr>ProjectMonth.id' = 1, project_id = 1, month = 739495, pp = 50, lvp = 30,
          sop_ym = ''2026-06'', foc2026_pp = 25, foc2026_sec = 10\<rparr>]"
    by (simp add: kam_month_snaps_def st_two_def)
  have b: "kam_month_snaps st_two 1 (Some 739525) =
      [\<lparr>ProjectMonth.id' = 3, project_id = 1, month = 739525, pp = 40, lvp = 30,
          sop_ym = ''2026-06'', foc2026_pp = 20, foc2026_sec = 10\<rparr>]"
    by (simp add: kam_month_snaps_def st_two_def)
  have c: "promotions st_two (prev_proj_map st_two (Some 739495)) (Some 739495) 739525 = 10"
    by code_simp
  have d: "score_kam_month st_two (prev_proj_map st_two (Some 739495)) (Some 739495) 739525 alice =
     Inr (Some \<lparr>kam = ''Alice'', month = 739525, points_gained_pp = 0, points_gained_lvp = 0,
                points_lost_sop_delay = 20, points_lost_volume_dec = 0,
                points_lost_pp_dec = 0, total = - 120\<rparr>)"
    by code_simp
  show ?thesis using a b c d by simp
qed

text \<open>
  C3, as the code computes it: in a KAM's first scored month (no previous month), with exactly
  one project snapshot pp = 50, lvp = 30 and a target target_pp = 40, target_lvp = 20, the
  engine awards gain_pp = 10 (50 is at least 40 and below 1.3 * 40 = 52) and gain_lvp = 40
  (30 is at least 1.3 * 20 = 26), all four losses are 0, and total = 50.
\<close>

theorem C3_first_month_example:
  assumes "kam_month_snaps st (KAM.id' k) (Some m) = [x]"
    and "ProjectMonth.pp x = 50" and "ProjectMonth.lvp x = 30"
    and "month_targets st (KAM.id' k) m = Some t"
    and "target_pp t = 40" and "target_lvp t = 20"
  shows "score_kam_month st pmap None m k =
           Inr (Some \<lparr>kam = KAM.name k, month = m, points_gained_pp = 10,
                      points_gained_lvp = 40, points_lost_sop_delay = 0,
                      points_lost_volume_dec = 0, points_lost_pp_dec = 0, total = 50\<rparr>) \<and>
         inactivity_loss None (kam_month_snaps st (KAM.id' k) None) [x] = 0"
  using assms
  by (simp add: score_kam_month_def Let_def kam_month_snaps_def gained_pp_points_def
        gained_lvp_points_def sop_delay_loss_def vol_dec_loss_def pp_dec_loss_def
        promotions_def inactivity_loss_def)

theorem C3_first_month_example_witness:
  "kam_month_snaps st_first (KAM.id' alice) (Some 739495) =
     [\<lparr>ProjectMonth.id' = 1, project_id = 1, month = 739495, pp = 50, lvp = 30,
       sop_ym = ''2026-06'', foc2026_pp = 25, foc2026_sec = 21\<rparr>] \<and>
   month_targets st_first (KAM.id' alice) 739495 =
     Some \<lparr>MonthlyTarget.id' = 1, kam_id = 1, month = 739495, target_pp = 40, target_lvp = 20\<rparr> \<and>
   score_kam_month st_first (prev_proj_map st_first None) None 739495 alice = Inr (Some alice_m1)"
proof -
  have s: "kam_month_snaps st_first (KAM.id' alice) (Some 739495) =
     [\<lparr>ProjectMonth.id' = 1, project_id = 1, month = 739495, pp = 50, lvp = 30,
       sop_ym = ''2026-06'', foc2026_pp = 25, foc2026_sec = 21\<rparr>]"
    by (simp add: kam_month_snaps_def st_first_def alice_def)
  have t: "month_targets st_first (KAM.id' alice) 739495 =
     Some \<lparr>MonthlyTarget.id' = 1, kam_id = 1, month = 739495, target_pp = 40, target_lvp = 20\<rparr>"
    by (simp add: month_targets_def st_first_def alice_def)
  from C3_first_month_example[OF s _ _ t, of "prev_proj_map st_first None"] s t
  show ?thesis by (simp add: alice_def alice_m1_def)
qed

text \<open>
  The claim's own figures, gain_lvp = 20 and total = 30, are not what the engine returns on
  that store.
\<close>

theorem C3_counterexample:
  "months st_first = [739495] \<and>
   map ProjectMonth.pp (kam_month_snaps st_first 1 (Some 739495)) = [50] \<and>
   map ProjectMonth.lvp (kam_month_snaps st_first 1 (Some 739495)) = [30] \<and>
   map_option target_pp (month_targets st_first 1 739495) = Some 40 \<and>
   map_option target_lvp (month_targets st_first 1 739495) = Some 20 \<and>
   calc_scores st_first = Inr ([alice_m1], [(''Alice'', 50)]) \<and>
   points_gained_pp alice_m1 = 10 \<and>
   points_gained_lvp alice_m1 = 40 \<and> points_gained_lvp alice_m1 \<noteq> 20 \<and>
   total alice_m1 = 50 \<and> total alice_m1 \<noteq> 30"
  using st_first_scores
  by (simp add: alice_m1_def months_def kam_month_snaps_def month_targets_def st_first_def)

text \<open>
  C4, as the code computes it: for every record emitted for a KAM in a month with a previous
  month, the inactivity loss, the amount taken off the total beyond the three losses the
  record carries, is exactly 100 if every project identifier active for that KAM in the
  month was already active for that KAM in the previous month (no new project), and exactly
  0 otherwise.
\<close>

theorem C4_inactivity_no_new_project:
  assumes "calc_scores st = Inr (results, cumul)" and "r \<in> set results"
  shows "\<exists>k\<in>set (kams st). \<exists>mi<length (months st).
           kam r = KAM.name k \<and> ScoreItem.month r = months st ! mi \<and>
           (0 < mi \<longrightarrow>
              (let prev_snaps = kam_month_snaps st (KAM.id' k) (Some (months st ! (mi - 1)));
                   snaps = kam_month_snaps st (KAM.id' k) (Some (months st ! mi));
                   inact = inactivity_loss (Some (months st ! (mi - 1))) prev_snaps snaps
               in inact = (if project_id ` set snaps \<subseteq> project_id ` set prev_snaps
                           then 100 else 0) \<and>
                  total r = points_gained_pp r + points_gained_lvp r
                    - (points_lost_sop_delay r + points_lost_volume_dec r
                       + points_lost_pp_dec r + inact)))"
proof -
  from calc_scores_origin[OF assms] obtain k mi where k: "k \<in> set (kams st)"
    and mi: "mi < length (months st)"
    and sc: "score_kam_month st (prev_proj_map st (prev_month (months st) mi))
               (prev_month (months st) mi) (months st ! mi) k = Inr (Some r)"
    by blast
  have "0 < mi \<Longrightarrow> prev_month (months st) mi = Some (months st ! (mi - 1))"
    by (simp add: prev_month_def)
  with score_kam_month_fields(6)[OF sc]
  have "0 < mi \<longrightarrow>
      (let prev_snaps = kam_month_snaps st (KAM.id' k) (Some (months st ! (mi - 1)));
           snaps = kam_month_snaps st (KAM.id' k) (Some (months st ! mi));
           inact = inactivity_loss (Some (months st ! (mi - 1))) prev_snaps snaps
       in inact = (if project_id ` set snaps \<subseteq> project_id ` set prev_snaps
                   then 100 else 0) \<and>
          total r = points_gained_pp r + points_gained_lvp r
            - (points_lost_sop_delay r + points_lost_volume_dec r
               + points_lost_pp_dec r + inact))"
    by (simp add: Let_def inactivity_loss_subset)
  with k mi score_kam_month_Some(1,2)[OF sc] show ?thesis by blast
qed

theorem C4_inactivity_no_new_project_witness:
  "calc_scores st_alice = Inr ([alice_m1, alice_m2], [(''Alice'', - 60)]) \<and>
   alice_m2 \<in> set [alice_m1, alice_m2] \<and>
   (\<exists>k\<in>set (kams st_alice). \<exists>mi<length (months st_alice).
           kam alice_m2 = KAM.name k \<and> ScoreItem.month alice_m2 = months st_alice ! mi \<and>
           (0 < mi \<longrightarrow>
              (let prev_snaps = kam_month_snaps st_alice (KAM.id' k) (Some (months st_alice ! (mi - 1)));
                   snaps = kam_month_snaps st_alice (KAM.id' k) (Some (months st_alice ! mi));
                   inact = inactivity_loss (Some (months st_alice ! (mi - 1))) prev_snaps snaps
               in inact = (if project_id ` set snaps \<subseteq> project_id ` set prev_snaps
                           then 100 else 0) \<and>
                  total alice_m2 = points_gained_pp alice_m2 + points_gained_lvp alice_m2
                    - (points_lost_sop_delay alice_m2 + points_lost_volume_dec alice_m2
                       + points_lost_pp_dec alice_m2 + inact))))"
proof -
  have m: "alice_m2 \<in> set [alice_m1, alice_m2]" by simp
  from C4_inactivity_no_new_project[OF st_alice_scores m] st_alice_scores m
  show ?thesis by blast
qed

text \<open>
  A KAM whose projects go from 1, 2 to 1, 3: the current set is not a strict superset of the
  previous one (project 2 is gone), yet project 3 is new and the inactivity loss is 0.
\<close>

theorem C4_counterexample:
  "calc_scores st_swap = Inr ([swap_m1, swap_m2], [(''Alice'', 0)]) \<and>
   map project_id (kam_month_snaps st_swap 1 (Some 739495)) = [1, 2] \<and>
   map project_id (kam_month_snaps st_swap 1 (Some 739525)) = [1, 3] \<and>
   \<not> (set (map project_id (kam_month_snaps st_swap 1 (Some 739495)))
        \<subset> set (map project_id (kam_month_snaps st_swap 1 (Some 739525)))) \<and>
   inactivity_loss (Some 739495) (kam_month_snaps st_swap 1 (Some 739495))
     (kam_month_snaps st_swap 1 (Some 739525)) = 0 \<and>
   total swap_m2 = 0"
proof -
  have a: "map project_id (kam_month_snaps st_swap 1 (Some 739495)) = [1, 2]"
    by (simp add: kam_month_snaps_def st_swap_def)
  have b: "map project_id (kam_month_snaps st_swap 1 (Some 739525)) = [1, 3]"
    by (simp add: kam_month_snaps_def st_swap_def)
  have c: "inactivity_loss (Some 739495) (kam_month_snaps st_swap 1 (Some 739495))
     (kam_month_snaps st_swap 1 (Some 739525)) = 0"
    using a b by (simp add: inactivity_loss_def Let_def)
  have d: "\<not> (set [1, 2 :: int] \<subset> set [1, 3])" by auto
  show ?thesis using st_swap_scores a b c d by (simp add: swap_m2_def)
qed

text \<open>
  C5, as the code has it: every score record emitted for a (KAM, month) carries five
  component figures, the points gained for pp and for lvp and the points lost for
  delivery-date slippage, volume decrease and pp decrease, together with the total. The
  inactivity loss is no field of the record; it only enters the total.
\<close>

theorem C5_record_figures:
  assumes "calc_scores st = Inr (results, cumul)" and "r \<in> set results"
  shows "\<exists>k\<in>set (kams st). \<exists>mi<length (months st).
           (let m = months st ! mi;
                prev_m = prev_month (months st) mi;
                snaps = kam_month_snaps st (KAM.id' k) (Some m);
                prev_snaps = kam_month_snaps st (KAM.id' k) prev_m;
                sum_pp = sum_list (map ProjectMonth.pp snaps);
                prev_pp = sum_list (map ProjectMonth.pp prev_snaps);
                sum_lvp = sum_list (map ProjectMonth.lvp snaps);
                prev_lvp = sum_list (map ProjectMonth.lvp prev_snaps);
                t = month_targets st (KAM.id' k) m
            in kam r = KAM.name k \<and> ScoreItem.month r = m \<and>
               points_gained_pp r = gained_pp_points t (max 0 (sum_pp - prev_pp)) \<and>
               points_gained_lvp r = gained_lvp_points t (max 0 (sum_lvp - prev_lvp)) \<and>
               sop_delay_loss st (prev_proj_map st prev_m) prev_m m
                 = Inr (points_lost_sop_delay r) \<and>
               points_lost_volume_dec r = vol_dec_loss prev_m prev_snaps snaps \<and>
               points_lost_pp_dec r =
                 pp_dec_loss prev_m prev_pp (max 0 (sum_pp - prev_pp)) sum_pp
                   (promotions st (prev_proj_map st prev_m) prev_m m) \<and>
               total r = points_gained_pp r + points_gained_lvp r
                 - (points_lost_sop_delay r + points_lost_volume_dec r
                    + points_lost_pp_dec r + inactivity_loss prev_m prev_snaps snaps))"
proof -
  from calc_scores_origin[OF assms] obtain k mi where k: "k \<in> set (kams st)"
    and mi: "mi < length (months st)"
    and sc: "score_kam_month st (prev_proj_map st (prev_month (months st) mi))
               (prev_month (months st) mi) (months st ! mi) k = Inr (Some r)"
    by blast
  from score_kam_month_fields[OF sc] score_kam_month_Some(1,2)[OF sc] k mi
  show ?thesis unfolding Let_def by blast
qed

theorem C5_record_figures_witness:
  "calc_scores st_alice = Inr ([alice_m1, alice_m2], [(''Alice'', - 60)]) \<and>
   alice_m2 \<in> set [alice_m1, alice_m2] \<and>
   (\<exists>k\<in>set (kams st_alice). \<exists>mi<length (months st_alice).
      kam alice_m2 = KAM.name k \<and> ScoreItem.month alice_m2 = months st_alice ! mi \<and>
      points_lost_volume_dec alice_m2 =
        vol_dec_loss (prev_month (months st_alice) mi)
          (kam_month_snaps st_alice (KAM.id' k) (prev_month (months st_alice) mi))
          (kam_month_snaps st_alice (KAM.id' k) (Some (months st_alice ! mi))))"
proof -
  have m: "alice_m2 \<in> set [alice_m1, alice_m2]" by simp
  from C5_record_figures[OF st_alice_scores m, unfolded Let_def] st_alice_scores m
  show ?thesis by blast
qed

text \<open>
  The second record of this store was emitted with an inactivity loss of 100; none of the
  figures it carries holds it, only the total reflects it.
\<close>

theorem C5_counterexample:
  "calc_scores st_alice = Inr ([alice_m1, alice_m2], [(''Alice'', - 60)]) \<and>
   inactivity_loss (Some 739495) (kam_month_snaps st_alice 1 (Some 739495))
     (kam_month_snaps st_alice 1 (Some 739525)) = 100 \<and>
   alice_m2 =
     \<lparr>kam = ''Alice'', month = 739525, points_gained_pp = 0, points_gained_lvp = 0,
      points_lost_sop_delay = 0, points_lost_volume_dec = 0, points_lost_pp_dec = 10,
      total = - 110\<rparr>"
proof -
  have "inactivity_loss (Some 739495) (kam_month_snaps st_alice 1 (Some 739495))
     (kam_month_snaps st_alice 1 (Some 739525)) = 100"
    by (simp add: inactivity_loss_def kam_month_snaps_def st_alice_def)
  with st_alice_scores show ?thesis by (simp add: alice_m2_def)
qed



text \<open>
  C7: every emitted score record has total = gain_pp + gain_lvp - (sop_delay_loss +
  volume_decrease_loss + pp_decrease_loss + inactivity_loss), and the two gains and the four
  losses are all at least 0. The inactivity loss is not a field of the record: it is the
  value \<open>inactivity_loss\<close> computes for the KAM and month the record was emitted for.
\<close>

theorem C7_total_and_signs:
  assumes "calc_scores st = Inr (results, cumul)" and "r \<in> set results"
  shows "\<exists>k\<in>set (kams st). \<exists>mi<length (months st).
           kam r = KAM.name k \<and> ScoreItem.month r = months st ! mi \<and>
           total r = points_gained_pp r + points_gained_lvp r
             - (points_lost_sop_delay r + points_lost_volume_dec r + points_lost_pp_dec r
                + inactivity_loss (prev_month (months st) mi)
                    (kam_month_snaps st (KAM.id' k) (prev_month (months st) mi))
                    (kam_month_snaps st (KAM.id' k) (Some (months st ! mi)))) \<and>
           0 \<le> points_gained_pp r \<and> 0 \<le> points_gained_lvp r \<and>
           0 \<le> points_lost_sop_delay r \<and> 0 \<le> points_lost_volume_dec r \<and>
           0 \<le> points_lost_pp_dec r \<and>
           0 \<le> inactivity_loss (prev_month (months st) mi)
                    (kam_month_snaps st (KAM.id' k) (prev_month (months st) mi))
                    (kam_month_snaps st (KAM.id' k) (Some (months st ! mi)))"
proof -
  from calc_scores_origin[OF assms] obtain k mi where k: "k \<in> set (kams st)"
    and mi: "mi < length (months st)"
    and sc: "score_kam_month st (prev_proj_map st (prev_month (months st) mi))
               (prev_month (months st) mi) (months st ! mi) k = Inr (Some r)"
    by blast
  note f = score_kam_month_fields[OF sc]
  have "0 \<le> points_gained_pp r" "0 \<le> points_gained_lvp r"
    "0 \<le> points_lost_volume_dec r" "0 \<le> points_lost_pp_dec r"
    by (simp_all add: f(1,2,4,5) gained_pp_points_nonneg gained_lvp_points_nonneg
          vol_dec_loss_nonneg pp_dec_loss_nonneg)
  moreover have "0 \<le> points_lost_sop_delay r"
    using f(3) by (rule sop_delay_loss_nonneg)
  ultimately show ?thesis
    using k mi score_kam_month_Some(1,2)[OF sc] f(6) inactivity_loss_nonneg
    by blast
qed

theorem C7_total_and_signs_witness:
  "calc_scores st_alice = Inr ([alice_m1, alice_m2], [(''Alice'', - 60)]) \<and>
   alice_m2 \<in> set [alice_m1, alice_m2] \<and>
   (\<exists>k\<in>set (kams st_alice). \<exists>mi<length (months st_alice).
      kam alice_m2 = KAM.name k \<and> ScoreItem.month alice_m2 = months st_alice ! mi \<and>
      total alice_m2 = points_gained_pp alice_m2 + points_gained_lvp alice_m2
        - (points_lost_sop_delay alice_m2 + points_lost_volume_dec alice_m2
           + points_lost_pp_dec alice_m2
           + inactivity_loss (prev_month (months st_alice) mi)
               (kam_month_snaps st_alice (KAM.id' k) (prev_month (months st_alice) mi))
               (kam_month_snaps st_alice (KAM.id' k) (Some (months st_alice ! mi)))) \<and>
      0 \<le> points_lost_pp_dec alice_m2)"
proof -
  have m: "alice_m2 \<in> set [alice_m1, alice_m2]" by simp
  from C7_total_and_signs[OF st_alice_scores m] st_alice_scores m show ?thesis by blast
qed

text \<open>
  C8, as the code has it: if a token read by the delay-loss computation, the sop_ym of a
  snapshot of month m whose project has an entry for the previous month, or the sop of that
  entry, is rejected by \<open>ym_to_int\<close> (it does not split at "-" into exactly two parts that
  \<open>int\<close> accepts), then, as soon as some KAM has a snapshot in m, the run returns no result:
  it ends with an exception, the ValueError of a rejected token or the OverflowError of a
  slippage that does not fit a float, whichever is raised first. The record is not skipped.
  A rejected token is never of the form YYYY-MM.
\<close>

theorem C8_unparsable_token_fails:
  assumes "mi < length (months st)" and "0 < mi"
    and "k \<in> set (kams st)"
    and "kam_month_snaps st (KAM.id' k) (Some (months st ! mi)) \<noteq> []"
    and "c \<in> set (project_months st)" and "ProjectMonth.month c = months st ! mi"
    and "prev_proj_map st (Some (months st ! (mi - 1))) (project_id c) = Some prev"
    and "ym_to_int (sop_ym c) = Inl e \<or> ym_to_int (sop prev) = Inl e"
  shows "(calc_scores st = Inl ValueError \<or> calc_scores st = Inl OverflowError) \<and>
         \<not> (matches_yyyy_mm (sop_ym c) \<and> matches_yyyy_mm (sop prev))"
proof -
  let ?m = "months st ! mi"
  let ?p = "Some (months st ! (mi - 1))"
  have p: "prev_month (months st) mi = ?p"
    using assms(2) by (simp add: prev_month_def)
  have "c \<in> set (month_rows st ?m)"
    using assms(5,6) by (simp add: month_rows_def)
  from sop_delay_rows_fails[where pmap = "prev_proj_map st ?p" and loss = 0,
      OF this assms(7,8)]
  obtain e' where "sop_delay_loss st (prev_proj_map st ?p) ?p ?m = Inl e'"
    by (auto simp: sop_delay_loss_def)
  from score_kam_month_fails[OF assms(4) this]
  have sc: "score_kam_month st (prev_proj_map st ?p) ?p ?m k = Inl e'" .
  have "calc_scores st \<noteq> Inr acc" for acc
    using calc_scores_no_error[of st acc mi k e'] assms(1,3) sc p by auto
  then obtain e'' where "calc_scores st = Inl e''"
    by (cases "calc_scores st") auto
  with calc_scores_error[of st e'']
  have 1: "calc_scores st = Inl ValueError \<or> calc_scores st = Inl OverflowError" by auto
  have 2: "\<not> (matches_yyyy_mm (sop_ym c) \<and> matches_yyyy_mm (sop prev))"
    using assms(8) matches_yyyy_mm_parses by fastforce
  from 1 2 show ?thesis by simp
qed

theorem C8_unparsable_token_fails_witness:
  "1 < length (months st_bad) \<and> alice \<in> set (kams st_bad) \<and>
   kam_month_snaps st_bad (KAM.id' alice) (Some (months st_bad ! 1)) \<noteq> [] \<and>
   bad_row \<in> set (project_months st_bad) \<and> ProjectMonth.month bad_row = months st_bad ! 1 \<and>
   prev_proj_map st_bad (Some (months st_bad ! (1 - 1))) (project_id bad_row) = Some bad_prev \<and>
   ym_to_int (sop_ym bad_row) = Inl ValueError \<and>
   calc_scores st_bad = Inl ValueError \<and>
   \<not> (matches_yyyy_mm (sop_ym bad_row) \<and> matches_yyyy_mm (sop bad_prev))"
proof -
  have ms: "months st_bad = [739495, 739525]" by code_simp
  have l: "1 < length (months st_bad)" by (simp add: ms)
  have z: "0 < (1::nat)" by simp
  have k: "alice \<in> set (kams st_bad)" by (simp add: alice_def st_bad_def)
  have "kam_month_snaps st_bad (KAM.id' alice) (Some 739525) \<noteq> []"
    by (simp add: kam_month_snaps_def st_bad_def alice_def)
  then have s: "kam_month_snaps st_bad (KAM.id' alice) (Some (months st_bad ! 1)) \<noteq> []"
    by (simp add: ms)
  have c: "bad_row \<in> set (project_months st_bad)" by (simp add: bad_row_def st_bad_def)
  have m: "ProjectMonth.month bad_row = months st_bad ! 1" by (simp add: ms bad_row_def)
  have "prev_proj_map st_bad (Some 739495) (project_id bad_row) = Some bad_prev"
    by (simp add: prev_proj_map_def month_rows_def st_bad_def bad_row_def bad_prev_def)
  then have p: "prev_proj_map st_bad (Some (months st_bad ! (1 - 1))) (project_id bad_row)
      = Some bad_prev"
    by (simp add: ms)
  have t: "ym_to_int (sop_ym bad_row) = Inl ValueError" by code_simp
  have t': "ym_to_int (sop_ym bad_row) = Inl ValueError \<or> ym_to_int (sop bad_prev) = Inl ValueError"
    using t by simp
  have v: "calc_scores st_bad = Inl ValueError" by code_simp
  from C8_unparsable_token_fails[OF l z k s c m p t'] l k s c m p t v
  show ?thesis by blast
qed

text \<open>
  The token 2026-7 is not of the form YYYY-MM, the delay-loss computation reads it for
  project 1, and no error is surfaced: it is parsed as month index 24319 and the slippage of
  one month, 2 * 21 * 1 = 42, is charged.
\<close>

theorem C8_counterexample:
  "\<not> matches_yyyy_mm ''2026-7'' \<and>
   map sop_ym (month_rows st_tok 739525) = [''2026-7''] \<and>
   ym_to_int ''2026-7'' = Inr 24319 \<and>
   calc_scores st_tok =
     Inr ([alice_m1,
           \<lparr>kam = ''Alice'', month = 739525, points_gained_pp = 0, points_gained_lvp = 0,
            points_lost_sop_delay = 42, points_lost_volume_dec = 0, points_lost_pp_dec = 10,
            total = - 152\<rparr>],
          [(''Alice'', - 102)])"
proof -
  have a: "\<not> matches_yyyy_mm ''2026-7''" by (simp add: matches_yyyy_mm_def)
  have b: "map sop_ym (month_rows st_tok 739525) = [''2026-7'']"
    by (simp add: month_rows_def st_tok_def)
  have c: "ym_to_int ''2026-7'' = Inr 24319" by code_simp
  from a b c st_tok_scores show ?thesis by simp
qed

text \<open>
  C9: the cumulative mapping returned by the engine has an entry for every KAM of the
  store; a KAM with no project snapshot in any month (names being unique) has the value 0
  there, and no score record is emitted for it.
\<close>

theorem C9_every_kam_has_entry:
  assumes "calc_scores st = Inr (results, cumul)"
    and "k \<in> set (kams st)"
  shows "(\<exists>v. map_of cumul (KAM.name k) = Some v) \<and>
         (distinct (map KAM.name (kams st)) \<and>
          (\<forall>m. kam_month_snaps st (KAM.id' k) (Some m) = []) \<longrightarrow>
            map_of cumul (KAM.name k) = Some 0 \<and> (\<forall>r\<in>set results. kam r \<noteq> KAM.name k))"
proof -
  have "KAM.name k \<in> fst ` set cumul"
    using calc_scores_keys[OF assms(1)] assms(2) by simp
  then obtain v where v: "map_of cumul (KAM.name k) = Some v"
    by (metis domD dom_map_of_conv_image_fst)
  have "map_of cumul (KAM.name k) = Some 0 \<and> (\<forall>r\<in>set results. kam r \<noteq> KAM.name k)"
    if d: "distinct (map KAM.name (kams st))"
      and none: "\<forall>m. kam_month_snaps st (KAM.id' k) (Some m) = []"
  proof -
    have no: "kam r \<noteq> KAM.name k" if r: "r \<in> set results" for r
    proof
      assume eq: "kam r = KAM.name k"
      from calc_scores_origin[OF assms(1) r] obtain k' mi where k': "k' \<in> set (kams st)"
        and sc: "score_kam_month st (prev_proj_map st (prev_month (months st) mi))
               (prev_month (months st) mi) (months st ! mi) k' = Inr (Some r)"
        by blast
      from score_kam_month_Some(1)[OF sc] eq have "KAM.name k' = KAM.name k" by simp
      with d k' assms(2) have "k' = k"
        by (meson distinct_map inj_onD)
      with score_kam_month_Some(3)[OF sc] none show False by simp
    qed
    then have "filter (\<lambda>r. kam r = KAM.name k) results = []"
      by (simp add: filter_empty_conv)
    then have "running_total (KAM.name k) results = 0"
      by (simp add: running_total_def)
    with calc_scores_totals[OF assms(1) v] v no show ?thesis by simp
  qed
  with v show ?thesis by blast
qed

theorem C9_every_kam_has_entry_witness:
  "calc_scores st_team =
     Inr ([alice_m1, alice_m2, carla_m2], [(''Alice'', - 60), (''Carla'', 0), (''Dario'', 0)]) \<and>
   dario \<in> set (kams st_team) \<and> distinct (map KAM.name (kams st_team)) \<and>
   (\<forall>m. kam_month_snaps st_team (KAM.id' dario) (Some m) = []) \<and>
   map_of [(''Alice'', - 60), (''Carla'', 0), (''Dario'', 0)] (KAM.name dario) = Some (0 :: real) \<and>
   KAM.name dario \<notin> set (map kam [alice_m1, alice_m2, carla_m2])"
proof -
  have k: "dario \<in> set (kams st_team)" by (simp add: dario_def st_team_def)
  have d: "distinct (map KAM.name (kams st_team))" by (simp add: st_team_def)
  have e: "\<forall>m. kam_month_snaps st_team (KAM.id' dario) (Some m) = []"
    by (simp add: kam_month_snaps_def st_team_def dario_def)
  from C9_every_kam_has_entry[OF st_team_scores k] d e
  have "map_of [(''Alice'', - 60), (''Carla'', 0), (''Dario'', 0)] (KAM.name dario) = Some (0 :: real)"
    and "\<forall>r\<in>set [alice_m1, alice_m2, carla_m2]. kam r \<noteq> KAM.name dario"
    by blast+
  with st_team_scores k d e show ?thesis by auto
qed

text \<open>
  C10, as the code has it: for every KAM that has snapshots in month m, where m has a
  previous month in the global sequence but the KAM has no snapshot of its own in that
  previous month, the inactivity loss of that (KAM, m) is exactly 0; the volume-decrease
  loss and the pp-decrease loss are exactly 0 as well, and the total is the gains minus the
  slippage loss alone, when no pp and no foc2026_sec figure of the store is negative.
\<close>

theorem C10_no_prev_snapshots:
  assumes "calc_scores st = Inr (results, cumul)" and "r \<in> set results"
    and "k \<in> set (kams st)" and "distinct (map KAM.name (kams st))"
    and "kam r = KAM.name k"
    and "mi < length (months st)" and "ScoreItem.month r = months st ! mi"
    and "0 < mi"
    and "kam_month_snaps st (KAM.id' k) (Some (months st ! (mi - 1))) = []"
  shows "inactivity_loss (Some (months st ! (mi - 1)))
           (kam_month_snaps st (KAM.id' k) (Some (months st ! (mi - 1))))
           (kam_month_snaps st (KAM.id' k) (Some (months st ! mi))) = 0 \<and>
         ((\<forall>x\<in>set (project_months st). 0 \<le> ProjectMonth.pp x \<and> 0 \<le> foc2026_sec x) \<longrightarrow>
            points_lost_volume_dec r = 0 \<and> points_lost_pp_dec r = 0 \<and>
            total r = points_gained_pp r + points_gained_lvp r - points_lost_sop_delay r)"
proof -
  have p: "prev_month (months st) mi = Some (months st ! (mi - 1))"
    using assms(8) by (simp add: prev_month_def)
  from calc_scores_record_of[OF assms(1-7)] p
  have sc: "score_kam_month st (prev_proj_map st (Some (months st ! (mi - 1))))
           (Some (months st ! (mi - 1))) (months st ! mi) k = Inr (Some r)"
    by simp
  have "kam_month_snaps st (KAM.id' k) (Some (months st ! mi)) \<noteq> []"
    using score_kam_month_Some(3)[OF sc] .
  then have i: "inactivity_loss (Some (months st ! (mi - 1)))
           (kam_month_snaps st (KAM.id' k) (Some (months st ! (mi - 1))))
           (kam_month_snaps st (KAM.id' k) (Some (months st ! mi))) = 0"
    using assms(9) by (simp add: inactivity_loss_def Let_def)
  have "points_lost_volume_dec r = 0 \<and> points_lost_pp_dec r = 0 \<and>
        total r = points_gained_pp r + points_gained_lvp r - points_lost_sop_delay r"
    if nonneg: "\<forall>x\<in>set (project_months st). 0 \<le> ProjectMonth.pp x \<and> 0 \<le> foc2026_sec x"
    using score_without_prev_snaps(1,2)[OF sc assms(9) nonneg]
      score_kam_month_fields(6)[OF sc] i
    by simp
  with i show ?thesis by blast
qed

theorem C10_no_prev_snapshots_witness:
  "calc_scores st_team =
     Inr ([alice_m1, alice_m2, carla_m2], [(''Alice'', - 60), (''Carla'', 0), (''Dario'', 0)]) \<and>
   carla_m2 \<in> set [alice_m1, alice_m2, carla_m2] \<and>
   carla \<in> set (kams st_team) \<and> distinct (map KAM.name (kams st_team)) \<and>
   kam carla_m2 = KAM.name carla \<and>
   1 < length (months st_team) \<and> ScoreItem.month carla_m2 = months st_team ! 1 \<and>
   kam_month_snaps st_team (KAM.id' carla) (Some (months st_team ! (1 - 1))) = [] \<and>
   inactivity_loss (Some (months st_team ! (1 - 1)))
     (kam_month_snaps st_team (KAM.id' carla) (Some (months st_team ! (1 - 1))))
     (kam_month_snaps st_team (KAM.id' carla) (Some (months st_team ! 1))) = 0 \<and>
   points_lost_volume_dec carla_m2 = 0 \<and> points_lost_pp_dec carla_m2 = 0 \<and>
   total carla_m2 =
     points_gained_pp carla_m2 + points_gained_lvp carla_m2 - points_lost_sop_delay carla_m2"
proof -
  have r: "carla_m2 \<in> set [alice_m1, alice_m2, carla_m2]" by simp
  have k: "carla \<in> set (kams st_team)" by (simp add: carla_def st_team_def)
  have d: "distinct (map KAM.name (kams st_team))" by (simp add: st_team_def)
  have n: "kam carla_m2 = KAM.name carla" by (simp add: carla_m2_def carla_def)
  have ms: "months st_team = [739495, 739525]" by code_simp
  have l: "1 < length (months st_team)" by (simp add: ms)
  have m: "ScoreItem.month carla_m2 = months st_team ! 1" by (simp add: ms carla_m2_def)
  have "kam_month_snaps st_team (KAM.id' carla) (Some 739495) = []"
    by (simp add: kam_month_snaps_def st_team_def carla_def)
  then have e: "kam_month_snaps st_team (KAM.id' carla) (Some (months st_team ! (1 - 1))) = []"
    by (simp add: ms)
  have g: "\<forall>x\<in>set (project_months st_team). 0 \<le> ProjectMonth.pp x \<and> 0 \<le> foc2026_sec x"
    by (simp add: st_team_def)
  have z: "0 < (1::nat)" by simp
  from C10_no_prev_snapshots[OF st_team_scores r k d n l m z e] g
    st_team_scores r k d n l m e
  show ?thesis by blast
qed

text \<open>
  Bob has no snapshot in the first month of this store and, in the second, one snapshot
  with pp = -10 and foc2026_sec = -7, as the manual-input route stores for a negative
  added_pp and added_lvp. His volume-decrease loss is 2 * (0 - (-7)) = 14 and his
  pp-decrease loss 2 * (0 - (-10)) = 20, where the claim gives 0 for both.
\<close>

theorem C10_counterexample:
  "months st_neg = [739617, 739648] \<and>
   kam_month_snaps st_neg 2 (Some 739617) = [] \<and>
   map ProjectMonth.pp (kam_month_snaps st_neg 2 (Some 739648)) = [- 10] \<and>
   map foc2026_sec (kam_month_snaps st_neg 2 (Some 739648)) = [- 7] \<and>
   calc_scores st_neg =
     Inr ([\<lparr>kam = ''Alice'', month = 739617, points_gained_pp = 0, points_gained_lvp = 0,
            points_lost_sop_delay = 0, points_lost_volume_dec = 0, points_lost_pp_dec = 0,
            total = 0\<rparr>,
           \<lparr>kam = ''Alice'', month = 739648, points_gained_pp = 0, points_gained_lvp = 0,
            points_lost_sop_delay = 0, points_lost_volume_dec = 0, points_lost_pp_dec = 0,
            total = - 100\<rparr>,
           \<lparr>kam = ''Bob'', month = 739648, points_gained_pp = 0, points_gained_lvp = 0,
            points_lost_sop_delay = 0, points_lost_volume_dec = 14, points_lost_pp_dec = 20,
            total = - 34\<rparr>],
          [(''Alice'', - 100), (''Bob'', - 34)])"
proof -
  have a: "months st_neg = [739617, 739648]" by code_simp
  have b: "kam_month_snaps st_neg 2 (Some 739617) = []"
    by (simp add: kam_month_snaps_def st_neg_def)
  have c: "kam_month_snaps st_neg 2 (Some 739648) =
      [\<lparr>ProjectMonth.id' = 3, project_id = 2, month = 739648, pp = - 10, lvp = - 10,
        sop_ym = ''2026-06'', foc2026_pp = - 5, foc2026_sec = - 7\<rparr>]"
    by (simp add: kam_month_snaps_def st_neg_def)
  from a b c st_neg_scores show ?thesis by simp
qed

end
